theory Spec2Isabelle
  imports Main "HOL-Library.Code_Target_Nat"
begin

section \<open>The table printer of libsmartcols (print.c)\<close>

text \<open>
  A shallow embedding of \<^verbatim>\<open>src/libsmartcols/src/print.c\<close>. C strings are
  \<^typ>\<open>string\<close> (the bytes before the terminating NUL), a pointer that may be NULL is an
  \<^typ>\<open>'a option\<close>, \<^verbatim>\<open>size_t\<close> values are \<^typ>\<open>nat\<close> (the sentinel
  \<^verbatim>\<open>(size_t) -1\<close> is written out where the source tests for it), return codes
  are \<^typ>\<open>int\<close>. The output stream \<^verbatim>\<open>tb->out\<close> is the string of the bytes written
  so far; every \<^verbatim>\<open>fputs\<close> appends to it.
\<close>

subsection \<open>Constants of the C library\<close>

definition EINVAL :: int where
  "EINVAL = 22"

definition ENOMEM :: int where
  "ENOMEM = 12"

definition EILSEQ :: int where
  "EILSEQ = 84"

text \<open>\<^verbatim>\<open>(size_t) -1\<close> on a 64-bit target, for the places where the sentinel is stored
  in a \<^verbatim>\<open>size_t\<close> field.\<close>

definition SIZE_MAX :: nat where
  "SIZE_MAX = 2 ^ 64 - 1"

text \<open>A \<^verbatim>\<open>size_t\<close> byte count that may be the sentinel: \<open>None\<close> is
  \<^verbatim>\<open>(size_t) -1\<close>.\<close>

definition size_of_bytes :: "nat option \<Rightarrow> nat" where
  "size_of_bytes b = (case b of None \<Rightarrow> SIZE_MAX | Some n \<Rightarrow> n)"

text \<open>The allocator: the answers \<^verbatim>\<open>malloc\<close>/\<^verbatim>\<open>strdup\<close> will give to the next
  requests (\<open>False\<close>: the request fails). When the list is used up every request succeeds.\<close>

type_synonym heap = "bool list"

fun alloc :: "heap \<Rightarrow> bool \<times> heap" where
  "alloc [] = (True, [])"
| "alloc (b # bs) = (b, bs)"

subsection \<open>Data model (smartcolsP.h)\<close>

datatype scols_format = SCOLS_FMT_HUMAN | SCOLS_FMT_RAW | SCOLS_FMT_EXPORT | SCOLS_FMT_JSON

datatype scols_json_type =
  SCOLS_JSON_STRING | SCOLS_JSON_NUMBER | SCOLS_JSON_BOOLEAN
| SCOLS_JSON_ARRAY_STRING | SCOLS_JSON_ARRAY_NUMBER

datatype scols_gstate =
  SCOLS_GSTATE_NONE
| SCOLS_GSTATE_FIRST_MEMBER | SCOLS_GSTATE_MIDDLE_MEMBER | SCOLS_GSTATE_LAST_MEMBER
| SCOLS_GSTATE_MIDDLE_CHILD | SCOLS_GSTATE_LAST_CHILD
| SCOLS_GSTATE_CONT_MEMBERS | SCOLS_GSTATE_CONT_CHILDREN

record libscols_cell =
  ce_data :: "string option"
  ce_color :: "string option"

record libscols_symbols =
  tree_branch :: "string option"
  tree_vert :: "string option"
  tree_right :: "string option"
  group_vert :: "string option"
  group_horz :: "string option"
  group_first_member :: "string option"
  group_last_member :: "string option"
  group_middle_member :: "string option"
  group_last_child :: "string option"
  group_middle_child :: "string option"
  title_padding :: "string option"
  cell_padding :: "string option"

text \<open>A line with its chain of ancestors (\<^verbatim>\<open>ln->parent\<close>). \<open>ln_last_child\<close> is
  \<^verbatim>\<open>is_last_child(ln)\<close>: the line is the last entry of its parent's
  \<^verbatim>\<open>ln_branch\<close>; \<open>ln_has_children\<close> is \<^verbatim>\<open>!list_empty(&ln->ln_branch)\<close>.\<close>

datatype libscols_line =
  Line (ln_cells: "libscols_cell list") (ln_color: "string option")
       (ln_parent: "libscols_line option") (ln_last_child: bool) (ln_has_children: bool)

text \<open>A column. The flags are the bits of \<^verbatim>\<open>cl->flags\<close>. \<open>wrap_nextchunk\<close> is the
  custom wrap callback (\<open>None\<close>: not installed): called on the text at \<^verbatim>\<open>data\<close> it
  returns \<open>None\<close> for NULL, or \<open>Some (j, k)\<close> when it has ended the first chunk by a NUL at
  \<^verbatim>\<open>data[j]\<close> and returns the pointer \<^verbatim>\<open>data + k\<close>.
  The pending data: \<open>pending_data_buf\<close> is the owned heap copy (\<open>None\<close>: NULL),
  \<open>pending_data\<close> the cursor, as an offset into that buffer (\<open>None\<close>: NULL).\<close>

record libscols_column =
  cl_seqnum :: nat
  cl_width :: nat
  cl_color :: "string option"
  cl_safechars :: "string option"
  cl_header :: libscols_cell
  cl_json_type :: scols_json_type
  fl_tree :: bool
  fl_right :: bool
  fl_trunc :: bool
  fl_wrap :: bool
  fl_hidden :: bool
  cl_is_groups :: bool
  wrap_nextchunk :: "(string \<Rightarrow> (nat \<times> nat) option) option"
  pending_data_buf :: "string option"
  pending_data :: "nat option"
  pending_data_sz :: nat

text \<open>Modelled from the spec: the accessors of column.c, which is not among the sources,
  read the capability flags of the column (``is-tree, is-right-aligned, is-truncating,
  is-wrapping, has-custom-wrap-function, is-hidden'').\<close>

definition scols_column_is_hidden :: "libscols_column \<Rightarrow> bool" where
  "scols_column_is_hidden cl = fl_hidden cl"

definition scols_column_is_tree :: "libscols_column \<Rightarrow> bool" where
  "scols_column_is_tree cl = fl_tree cl"

definition scols_column_is_right :: "libscols_column \<Rightarrow> bool" where
  "scols_column_is_right cl = fl_right cl"

definition scols_column_is_trunc :: "libscols_column \<Rightarrow> bool" where
  "scols_column_is_trunc cl = fl_trunc cl"

definition scols_column_is_wrap :: "libscols_column \<Rightarrow> bool" where
  "scols_column_is_wrap cl = fl_wrap cl"

definition scols_column_is_customwrap :: "libscols_column \<Rightarrow> bool" where
  "scols_column_is_customwrap cl = (fl_wrap cl \<and> wrap_nextchunk cl \<noteq> None)"

text \<open>The text a C string pointer reads after the callback has written a NUL at offset
  \<open>j\<close>: from the start of the data, and from the returned pointer \<open>data + k\<close>.\<close>

definition chunk_head :: "string \<Rightarrow> nat \<Rightarrow> string" where
  "chunk_head d j = take j d"

definition chunk_next :: "string \<Rightarrow> nat \<Rightarrow> nat \<Rightarrow> string" where
  "chunk_next d j k = (if k \<le> j then take (j - k) (drop k d) else drop k d)"

subsection \<open>Pending data\<close>

text \<open>\<^verbatim>\<open>set_pending_data(cl, data, sz)\<close>: the data is copied with \<^verbatim>\<open>strdup\<close> when it
  is neither NULL nor empty, the old buffer is freed, and the cursor is put at the start of
  the new buffer (NULL when there is none).\<close>

definition set_pending_data ::
  "heap \<Rightarrow> libscols_column \<Rightarrow> string option \<Rightarrow> nat \<Rightarrow> int \<times> libscols_column \<times> heap" where
  "set_pending_data h cl d sz =
     (if d \<noteq> None \<and> d \<noteq> Some []
      then (case alloc h of
              (False, h') \<Rightarrow> (- ENOMEM, cl, h')
            | (True, h') \<Rightarrow>
                (0, cl\<lparr>pending_data_buf := d, pending_data := Some 0, pending_data_sz := sz\<rparr>, h'))
      else (0, cl\<lparr>pending_data_buf := None, pending_data := None, pending_data_sz := sz\<rparr>, h))"

text \<open>\<^verbatim>\<open>step_pending_data(cl, bytes)\<close>. The source only calls it on a column whose cursor
  is not NULL; the pointer arithmetic on a NULL cursor is left as NULL here.\<close>

definition step_pending_data ::
  "heap \<Rightarrow> libscols_column \<Rightarrow> nat \<Rightarrow> int \<times> libscols_column \<times> heap" where
  "step_pending_data h cl bytes =
     (if bytes \<ge> pending_data_sz cl then set_pending_data h cl None 0
      else (0, cl\<lparr>pending_data := map_option (\<lambda>p. p + bytes) (pending_data cl),
                   pending_data_sz := pending_data_sz cl - bytes\<rparr>, h))"

text \<open>The text the cursor reads (\<^verbatim>\<open>cl->pending_data\<close> as a C string).\<close>

definition pending_text :: "libscols_column \<Rightarrow> string" where
  "pending_text cl =
     (case (pending_data_buf cl, pending_data cl) of
        (Some b, Some p) \<Rightarrow> drop p b
      | _ \<Rightarrow> [])"

subsection \<open>JSON values\<close>

text \<open>The JSON token writer (\<^verbatim>\<open>ul_jsonwrt_*\<close>) is an external collaborator; the model
  records the calls made to it, in order, with their arguments (name, value, is-last
  flag).\<close>

datatype json_call =
  Jvalue_s "string option" string bool
| Jvalue_raw "string option" string bool
| Jvalue_boolean "string option" bool bool
| Jarray_open "string option"
| Jarray_close bool
| Jobject_open "string option"
| Jobject_close bool

text \<open>The value handed to \<^verbatim>\<open>ul_jsonwrt_value_boolean\<close> for a boolean column:
  \<^verbatim>\<open>!*data ? 0 : *data == '0' ? 0 : *data == 'N' || *data == 'n' ? 0 : 1\<close>.\<close>

definition json_boolean :: "string \<Rightarrow> bool" where
  "json_boolean d =
     (case d of
        [] \<Rightarrow> False
      | c # _ \<Rightarrow> (if c = CHR ''0'' then False
                  else if c = CHR ''N'' \<or> c = CHR ''n'' then False else True))"

text \<open>The \<^verbatim>\<open>do ... while (data)\<close> loop over the chunks of an array column with a custom
  wrap callback. A callback that never returns NULL keeps the loop running: the result is
  \<open>None\<close> then.\<close>

partial_function (option) json_array_chunks ::
  "(string \<Rightarrow> (nat \<times> nat) option) \<Rightarrow> scols_json_type \<Rightarrow> string \<Rightarrow> json_call list option" where
  "json_array_chunks f jt d =
     (case f d of
        None \<Rightarrow>
          Some [if jt = SCOLS_JSON_ARRAY_STRING then Jvalue_s None d True
                else Jvalue_raw None d True]
      | Some (j, k) \<Rightarrow>
          Option.bind (json_array_chunks f jt (chunk_next d j k))
            (\<lambda>rest.
               Some ((if jt = SCOLS_JSON_ARRAY_STRING then Jvalue_s None (chunk_head d j) False
                      else Jvalue_raw None (chunk_head d j) False) # rest)))"

declare json_array_chunks.simps [code]

text \<open>\<^verbatim>\<open>print_json_data(tb, cl, name, data, is_last)\<close>: the calls it makes to the JSON
  writer.\<close>

definition print_json_data ::
  "libscols_column \<Rightarrow> string option \<Rightarrow> string \<Rightarrow> bool \<Rightarrow> json_call list option" where
  "print_json_data cl name d is_last =
     (case cl_json_type cl of
        SCOLS_JSON_STRING \<Rightarrow> Some [Jvalue_s name d is_last]
      | SCOLS_JSON_NUMBER \<Rightarrow> Some [Jvalue_raw name d is_last]
      | SCOLS_JSON_BOOLEAN \<Rightarrow> Some [Jvalue_boolean name (json_boolean d) is_last]
      | _ \<Rightarrow>
          (case (if \<not> scols_column_is_customwrap cl then Some [Jvalue_s None d True]
                 else (case wrap_nextchunk cl of
                         None \<Rightarrow> Some [Jvalue_s None d True]
                       | Some f \<Rightarrow> json_array_chunks f (cl_json_type cl) d)) of
             None \<Rightarrow> None
           | Some vs \<Rightarrow> Some ([Jarray_open name] @ vs @ [Jarray_close is_last])))"

subsection \<open>The table, the scratch buffer and the external text services\<close>

text \<open>The table. \<open>tb_colsep\<close> and \<open>tb_linesep\<close> are what the macros \<^verbatim>\<open>colsep(tb)\<close> and
  \<^verbatim>\<open>linesep(tb)\<close> of smartcolsP.h give; \<open>grpset\<close> holds for every lane slot the
  \<^verbatim>\<open>state\<close> of the group it points to (\<open>None\<close>: a NULL slot), so \<^verbatim>\<open>grpset_size\<close> is
  its length; \<open>tb_has_groups\<close> is \<^verbatim>\<open>has_groups(tb)\<close>. \<open>tb_out\<close> is the output stream,
  \<open>tb_json\<close> the calls made to the JSON writer, \<open>tb_heap\<close> the allocator.\<close>

record libscols_table =
  tb_format :: scols_format
  tb_columns :: "libscols_column list"
  tb_lines :: "libscols_line list"
  tb_symbols :: libscols_symbols
  tb_colsep :: string
  tb_linesep :: string
  padding_debug :: bool
  colors_wanted :: bool
  no_encode :: bool
  maxout :: bool
  minout :: bool
  no_headings :: bool
  no_linesep :: bool
  tb_is_tree :: bool
  header_printed :: bool
  header_repeat :: bool
  header_next :: nat
  termlines_used :: nat
  termheight :: nat
  is_dummy_print :: bool
  tb_has_groups :: bool
  grpset :: "scols_gstate option list"
  tb_out :: string
  tb_json :: "json_call list"
  tb_heap :: heap

text \<open>The collaborators that are not part of print.c, taken as parameters: the
  multi-byte text services (mbsalign.h), the encoding step of the scratch buffer, the
  escaping writers of carefulputc.h, the colour reset sequence, the lane chunk size and
  the tree predicates of the walker.
  \<^item> \<open>mbs_truncate d w\<close> gives the byte count (\<open>None\<close>: \<^verbatim>\<open>(size_t) -1\<close>), the updated
    width, the text as it reads afterwards, and \<^verbatim>\<open>errno\<close>;
  \<^item> \<open>buffer_get_safe_data noenc d safechars\<close> gives the encoded text (\<open>None\<close>: NULL)
    and its width in cells;
  \<^item> \<open>buffer_get_safe_art_size d art_idx\<close> gives the encoded size of the art prefix;
  \<^item> \<open>fputs_nonblank\<close>, \<open>fputs_shell_ident\<close>, \<open>fputs_quoted\<close> give the bytes written.\<close>

record extern =
  mbs_width :: "string \<Rightarrow> nat"
  mbs_safe_width :: "string \<Rightarrow> nat"
  mbs_nwidth :: "string \<Rightarrow> nat \<Rightarrow> nat"
  mbs_safe_nwidth :: "string \<Rightarrow> nat \<Rightarrow> nat"
  mbs_truncate :: "string \<Rightarrow> nat \<Rightarrow> nat option \<times> nat \<times> string \<times> int"
  buffer_get_safe_data :: "bool \<Rightarrow> string \<Rightarrow> string option \<Rightarrow> string option \<times> nat"
  buffer_get_safe_art_size :: "string \<Rightarrow> nat \<Rightarrow> nat"
  fputs_nonblank :: "string \<Rightarrow> string"
  fputs_shell_ident :: "string \<Rightarrow> string"
  fputs_quoted :: "string \<Rightarrow> string"
  UL_COLOR_RESET :: string
  SCOLS_GRPSET_CHUNKSIZ :: nat
  is_child :: "libscols_line \<Rightarrow> bool"
  is_tree_root :: "libscols_line \<Rightarrow> bool"
  is_last_tree_root :: "libscols_line \<Rightarrow> bool"
  scols_walk_is_last :: "libscols_line \<Rightarrow> bool"

text \<open>Modelled from the spec: the accessors of table.c, which is not among the sources
  (``output format, ..., no-wrap/max-out/min-out flags'').\<close>

definition scols_table_is_json :: "libscols_table \<Rightarrow> bool" where
  "scols_table_is_json tb = (tb_format tb = SCOLS_FMT_JSON)"

definition scols_table_is_export :: "libscols_table \<Rightarrow> bool" where
  "scols_table_is_export tb = (tb_format tb = SCOLS_FMT_EXPORT)"

definition scols_table_is_noheadings :: "libscols_table \<Rightarrow> bool" where
  "scols_table_is_noheadings tb = no_headings tb"

definition scols_table_is_maxout :: "libscols_table \<Rightarrow> bool" where
  "scols_table_is_maxout tb = maxout tb"

definition scols_table_is_minout :: "libscols_table \<Rightarrow> bool" where
  "scols_table_is_minout tb = minout tb"

definition scols_table_is_noencoding :: "libscols_table \<Rightarrow> bool" where
  "scols_table_is_noencoding tb = no_encode tb"

definition scols_table_is_tree :: "libscols_table \<Rightarrow> bool" where
  "scols_table_is_tree tb = tb_is_tree tb"

text \<open>The symbol macros at the head of print.c, with their fallbacks.\<close>

definition sym :: "string option \<Rightarrow> string \<Rightarrow> string" where
  "sym s fallback = (case s of None \<Rightarrow> fallback | Some g \<Rightarrow> g)"

definition branch_symbol :: "libscols_table \<Rightarrow> string" where
  "branch_symbol tb = sym (tree_branch (tb_symbols tb)) ''|-''"

definition vertical_symbol :: "libscols_table \<Rightarrow> string" where
  "vertical_symbol tb = sym (tree_vert (tb_symbols tb)) ''| ''"

definition right_symbol :: "libscols_table \<Rightarrow> string" where
  "right_symbol tb = sym (tree_right (tb_symbols tb)) ''`-''"

definition grp_vertical_symbol :: "libscols_table \<Rightarrow> string" where
  "grp_vertical_symbol tb = sym (group_vert (tb_symbols tb)) ''|''"

definition grp_horizontal_symbol :: "libscols_table \<Rightarrow> string" where
  "grp_horizontal_symbol tb = sym (group_horz (tb_symbols tb)) ''-''"

definition grp_m_first_symbol :: "libscols_table \<Rightarrow> string" where
  "grp_m_first_symbol tb = sym (group_first_member (tb_symbols tb)) '',->''"

definition grp_m_last_symbol :: "libscols_table \<Rightarrow> string" where
  "grp_m_last_symbol tb = sym (group_last_member (tb_symbols tb)) [CHR 0x5C, CHR ''-'', CHR ''>'']"

definition grp_m_middle_symbol :: "libscols_table \<Rightarrow> string" where
  "grp_m_middle_symbol tb = sym (group_middle_member (tb_symbols tb)) ''|->''"

definition grp_c_middle_symbol :: "libscols_table \<Rightarrow> string" where
  "grp_c_middle_symbol tb = sym (group_middle_child (tb_symbols tb)) ''|-''"

definition grp_c_last_symbol :: "libscols_table \<Rightarrow> string" where
  "grp_c_last_symbol tb = sym (group_last_child (tb_symbols tb)) ''`-''"

definition cellpadding_symbol :: "libscols_table \<Rightarrow> string" where
  "cellpadding_symbol tb =
     (if padding_debug tb then ''.'' else sym (cell_padding (tb_symbols tb)) '' '')"

definition want_repeat_header :: "libscols_table \<Rightarrow> bool" where
  "want_repeat_header tb = (\<not> header_repeat tb \<or> header_next tb \<le> termlines_used tb)"

text \<open>\<^verbatim>\<open>fputs(s, tb->out)\<close>.\<close>

definition fputs :: "string \<Rightarrow> libscols_table \<Rightarrow> libscols_table" where
  "fputs s tb = tb\<lparr>tb_out := tb_out tb @ s\<rparr>"

text \<open>The loops \<^verbatim>\<open>for (i = len; i < width; i++) fputs(cellpadding_symbol(tb), tb->out)\<close>.\<close>

definition fill_padding :: "nat \<Rightarrow> nat \<Rightarrow> libscols_table \<Rightarrow> libscols_table" where
  "fill_padding len width tb = fputs (concat (replicate (width - len) (cellpadding_symbol tb))) tb"

text \<open>Modelled from the spec: buffer.c is not among the sources. The scratch buffer is
  a byte area of \<open>bufsz\<close> bytes ``holding raw copied cell text ... and a marker recording
  how many leading bytes are art''. An append that does not fit the area together with
  its terminating NUL is refused with \<^verbatim>\<open>-EINVAL\<close> and leaves the buffer as it was;
  appending an empty text does nothing.\<close>

record libscols_buffer =
  bufsz :: nat
  buf_data :: string
  art_idx :: nat

definition buffer_reset_data :: "libscols_buffer \<Rightarrow> libscols_buffer" where
  "buffer_reset_data buf = buf\<lparr>buf_data := [], art_idx := 0\<rparr>"

definition buffer_append_data :: "libscols_buffer \<Rightarrow> string \<Rightarrow> int \<times> libscols_buffer" where
  "buffer_append_data buf str =
     (if str = [] then (0, buf)
      else if bufsz buf - length (buf_data buf) \<le> length str then (- EINVAL, buf)
      else (0, buf\<lparr>buf_data := buf_data buf @ str\<rparr>))"

fun buffer_append_ntimes :: "libscols_buffer \<Rightarrow> nat \<Rightarrow> string \<Rightarrow> int \<times> libscols_buffer" where
  "buffer_append_ntimes buf 0 str = (0, buf)"
| "buffer_append_ntimes buf (Suc n) str =
     (case buffer_append_data buf str of
        (rc, buf') \<Rightarrow> if rc \<noteq> 0 then (rc, buf') else buffer_append_ntimes buf' n str)"

definition buffer_set_data :: "libscols_buffer \<Rightarrow> string \<Rightarrow> int \<times> libscols_buffer" where
  "buffer_set_data buf str = buffer_append_data (buffer_reset_data buf) str"

definition buffer_set_art_index :: "libscols_buffer \<Rightarrow> libscols_buffer" where
  "buffer_set_art_index buf = buf\<lparr>art_idx := length (buf_data buf)\<rparr>"

definition buffer_get_data :: "libscols_buffer \<Rightarrow> string" where
  "buffer_get_data buf = buf_data buf"

definition buffer_get_size :: "libscols_buffer \<Rightarrow> nat" where
  "buffer_get_size buf = bufsz buf"

definition new_buffer :: "heap \<Rightarrow> nat \<Rightarrow> libscols_buffer option \<times> heap" where
  "new_buffer h sz =
     (case alloc h of
        (False, h') \<Rightarrow> (None, h')
      | (True, h') \<Rightarrow> (Some \<lparr>bufsz = sz, buf_data = [], art_idx = 0\<rparr>, h'))"

text \<open>Modelled from the spec: \<^verbatim>\<open>scols_line_get_cell\<close> and \<^verbatim>\<open>scols_cell_get_data\<close>
  (line.c, cell.c) are not among the sources: a line has ``one slot per column, may be
  absent'', a cell ``a text value (owned string, may be absent/empty)''.\<close>

definition scols_line_get_cell :: "libscols_line \<Rightarrow> nat \<Rightarrow> libscols_cell option" where
  "scols_line_get_cell ln n = (if n < length (ln_cells ln) then Some (ln_cells ln ! n) else None)"

definition scols_cell_get_data :: "libscols_cell \<Rightarrow> string option" where
  "scols_cell_get_data ce = ce_data ce"

text \<open>Modelled from the spec: \<^verbatim>\<open>is_last_column\<close> (smartcolsP.h) is not among the
  sources: the column is ``the last visible column'', every column after it is hidden.
  A column is named by its position in \<open>tb_columns\<close>.\<close>

definition is_last_column :: "libscols_table \<Rightarrow> nat \<Rightarrow> bool" where
  "is_last_column tb i = list_all scols_column_is_hidden (drop (Suc i) (tb_columns tb))"

text \<open>Modelled from the spec: \<^verbatim>\<open>scols_table_get_column(tb, n)\<close> (table.c) is not among
  the sources: the column whose sequence index is \<open>n\<close> (``each with a unique sequence
  index''), NULL when there is none.\<close>

definition scols_table_get_column :: "libscols_table \<Rightarrow> nat \<Rightarrow> nat option" where
  "scols_table_get_column tb n =
     (case filter (\<lambda>i. cl_seqnum (tb_columns tb ! i) = n) [0..<length (tb_columns tb)] of
        [] \<Rightarrow> None
      | i # _ \<Rightarrow> Some i)"

subsection \<open>Empty columns to the right\<close>

text \<open>The loop of \<^verbatim>\<open>is_next_columns_empty\<close> over the columns after the current one.\<close>

fun next_columns_loop :: "libscols_column list \<Rightarrow> libscols_line \<Rightarrow> bool" where
  "next_columns_loop [] ln = True"
| "next_columns_loop (cl # cls) ln =
     (if scols_column_is_hidden cl then next_columns_loop cls ln
      else if scols_column_is_tree cl then False
      else (case (case scols_line_get_cell ln (cl_seqnum cl) of
                    None \<Rightarrow> None
                  | Some ce \<Rightarrow> scols_cell_get_data ce) of
              None \<Rightarrow> next_columns_loop cls ln
            | Some d \<Rightarrow> if d \<noteq> [] then False else next_columns_loop cls ln))"

definition is_next_columns_empty :: "libscols_table \<Rightarrow> nat \<Rightarrow> libscols_line option \<Rightarrow> bool" where
  "is_next_columns_empty tb i ln =
     (if is_last_column tb i then True
      else (case ln of
              None \<Rightarrow> False
            | Some l \<Rightarrow> next_columns_loop (drop (Suc i) (tb_columns tb)) l))"

subsection \<open>Tree and group art\<close>

fun tree_ascii_art_to_buffer ::
  "libscols_table \<Rightarrow> libscols_line \<Rightarrow> libscols_buffer \<Rightarrow> int \<times> libscols_buffer" where
  "tree_ascii_art_to_buffer tb (Line cells col None lastc ch) buf = (0, buf)"
| "tree_ascii_art_to_buffer tb (Line cells col (Some p) lastc ch) buf =
     (case tree_ascii_art_to_buffer tb p buf of
        (rc, buf') \<Rightarrow>
          if rc \<noteq> 0 then (rc, buf')
          else buffer_append_data buf' (if lastc then ''  '' else vertical_symbol tb))"

text \<open>\<^verbatim>\<open>grpset_is_empty(tb, idx, rest)\<close>: the result and the updated counter
  \<^verbatim>\<open>*rest\<close>.\<close>

fun grpset_scan :: "scols_gstate option list \<Rightarrow> nat \<Rightarrow> bool \<times> nat" where
  "grpset_scan [] rest = (True, rest)"
| "grpset_scan (None # gs) rest = grpset_scan gs (Suc rest)"
| "grpset_scan (Some g # gs) rest = (False, rest)"

definition grpset_is_empty :: "libscols_table \<Rightarrow> nat \<Rightarrow> nat \<Rightarrow> bool \<times> nat" where
  "grpset_is_empty tb idx rest = grpset_scan (drop idx (grpset tb)) rest"

text \<open>The locals of \<^verbatim>\<open>groups_ascii_art_to_buffer\<close> that its loop changes.\<close>

record groups_art =
  ga_buf :: libscols_buffer
  ga_filled :: bool
  ga_rest :: nat
  ga_filler :: string

text \<open>The \<^verbatim>\<open>switch (gr->state)\<close> of the loop body, for the group at slot \<open>i\<close>. The return
  codes of the appends are not looked at, as in the source.\<close>

definition groups_art_state ::
  "extern \<Rightarrow> libscols_table \<Rightarrow> nat \<Rightarrow> scols_gstate \<Rightarrow> groups_art \<Rightarrow> groups_art" where
  "groups_art_state x tb i st ga =
     (case st of
        SCOLS_GSTATE_NONE \<Rightarrow> ga
      | SCOLS_GSTATE_FIRST_MEMBER \<Rightarrow>
          ga\<lparr>ga_buf := snd (buffer_append_data (ga_buf ga) (grp_m_first_symbol tb))\<rparr>
      | SCOLS_GSTATE_MIDDLE_MEMBER \<Rightarrow>
          ga\<lparr>ga_buf := snd (buffer_append_data (ga_buf ga) (grp_m_middle_symbol tb))\<rparr>
      | SCOLS_GSTATE_LAST_MEMBER \<Rightarrow>
          ga\<lparr>ga_buf := snd (buffer_append_data (ga_buf ga) (grp_m_last_symbol tb))\<rparr>
      | SCOLS_GSTATE_CONT_MEMBERS \<Rightarrow>
          ga\<lparr>ga_buf := snd (buffer_append_ntimes
                   (snd (buffer_append_data (ga_buf ga) (grp_vertical_symbol tb))) 2 (ga_filler ga))\<rparr>
      | SCOLS_GSTATE_MIDDLE_CHILD \<Rightarrow>
          (let b1 = snd (buffer_append_data (ga_buf ga) (ga_filler ga));
               b2 = snd (buffer_append_data b1 (grp_c_middle_symbol tb));
               (e, rest') = grpset_is_empty tb (i + SCOLS_GRPSET_CHUNKSIZ x) (ga_rest ga)
           in if e
              then ga\<lparr>ga_buf := snd (buffer_append_ntimes b2 (rest' + 1) (grp_horizontal_symbol tb)),
                      ga_filled := True, ga_rest := rest', ga_filler := grp_horizontal_symbol tb\<rparr>
              else ga\<lparr>ga_buf := b2, ga_rest := rest', ga_filler := grp_horizontal_symbol tb\<rparr>)
      | SCOLS_GSTATE_LAST_CHILD \<Rightarrow>
          (let b1 = snd (buffer_append_data (ga_buf ga) (cellpadding_symbol tb));
               b2 = snd (buffer_append_data b1 (grp_c_last_symbol tb));
               (e, rest') = grpset_is_empty tb (i + SCOLS_GRPSET_CHUNKSIZ x) (ga_rest ga)
           in if e
              then ga\<lparr>ga_buf := snd (buffer_append_ntimes b2 (rest' + 1) (grp_horizontal_symbol tb)),
                      ga_filled := True, ga_rest := rest', ga_filler := grp_horizontal_symbol tb\<rparr>
              else ga\<lparr>ga_buf := b2, ga_rest := rest', ga_filler := grp_horizontal_symbol tb\<rparr>)
      | SCOLS_GSTATE_CONT_CHILDREN \<Rightarrow>
          (let b1 = snd (buffer_append_data (ga_buf ga) (ga_filler ga));
               b2 = snd (buffer_append_data b1 (grp_vertical_symbol tb))
           in ga\<lparr>ga_buf := snd (buffer_append_data b2 (ga_filler ga))\<rparr>))"

text \<open>The loop \<^verbatim>\<open>for (i = 0; i < tb->grpset_size; i += SCOLS_GRPSET_CHUNKSIZ)\<close>. With a
  chunk size of 0 the loop can only be left by the \<^verbatim>\<open>break\<close> in its first round;
  otherwise it runs forever, which is the result \<open>None\<close>.\<close>

function groups_art_loop ::
  "extern \<Rightarrow> libscols_table \<Rightarrow> nat \<Rightarrow> groups_art \<Rightarrow> groups_art option" where
  "groups_art_loop x tb i ga =
     (if length (grpset tb) \<le> i then Some ga
      else (case grpset tb ! i of
              None \<Rightarrow>
                (if SCOLS_GRPSET_CHUNKSIZ x = 0 then None
                 else groups_art_loop x tb (i + SCOLS_GRPSET_CHUNKSIZ x)
                        (ga\<lparr>ga_buf := snd (buffer_append_ntimes (ga_buf ga)
                                 (SCOLS_GRPSET_CHUNKSIZ x) (cellpadding_symbol tb))\<rparr>))
            | Some st \<Rightarrow>
                (let ga' = groups_art_state x tb i st ga
                 in if ga_filled ga' then Some ga'
                    else if SCOLS_GRPSET_CHUNKSIZ x = 0 then None
                    else groups_art_loop x tb (i + SCOLS_GRPSET_CHUNKSIZ x) ga')))"
  by pat_completeness auto
termination
  by (relation "measure (\<lambda>(x, tb, i, ga). length (grpset tb) - i)") auto

declare groups_art_loop.simps [simp del]

definition groups_ascii_art_to_buffer ::
  "extern \<Rightarrow> libscols_table \<Rightarrow> libscols_buffer \<Rightarrow> (int \<times> libscols_buffer) option" where
  "groups_ascii_art_to_buffer x tb buf =
     (if \<not> tb_has_groups tb then Some (0, buf)
      else if is_dummy_print tb then Some (0, buf)
      else (case groups_art_loop x tb 0
                   \<lparr>ga_buf = buf, ga_filled = False, ga_rest = 0,
                    ga_filler = cellpadding_symbol tb\<rparr> of
              None \<Rightarrow> None
            | Some ga \<Rightarrow>
                if \<not> ga_filled ga
                then Some (0, snd (buffer_append_data (ga_buf ga) (ga_filler ga)))
                else Some (0, ga_buf ga)))"

subsection \<open>Empty cells and line breaks inside a row\<close>

definition has_pending_data :: "libscols_table \<Rightarrow> bool" where
  "has_pending_data tb =
     list_ex (\<lambda>cl. \<not> scols_column_is_hidden cl \<and> pending_data cl \<noteq> None) (tb_columns tb)"

text \<open>The first part of \<^verbatim>\<open>print_empty_cell\<close>: the tree art written instead of padding,
  and its width \<^verbatim>\<open>len_pad\<close>.\<close>

definition print_empty_cell_art ::
  "extern \<Rightarrow> libscols_table \<Rightarrow> nat \<Rightarrow> libscols_line option \<Rightarrow> nat \<Rightarrow> libscols_table \<times> nat" where
  "print_empty_cell_art x tb i ln bsz =
     (case ln of
        None \<Rightarrow> (tb, 0)
      | Some l \<Rightarrow>
          if \<not> scols_column_is_tree (tb_columns tb ! i) then (tb, 0)
          else (case ln_parent l of
                  None \<Rightarrow>
                    if ln_has_children l
                    then (fputs (vertical_symbol tb) tb,
                          if scols_table_is_noencoding tb then mbs_width x (vertical_symbol tb)
                          else mbs_safe_width x (vertical_symbol tb))
                    else (tb, 0)
                | Some p \<Rightarrow>
                    (case new_buffer (tb_heap tb) bsz of
                       (None, h') \<Rightarrow> (tb\<lparr>tb_heap := h'\<rparr>, 0)
                     | (Some art, h') \<Rightarrow>
                         (let art1 = snd (tree_ascii_art_to_buffer tb l art);
                              art2 = (if ln_has_children l \<and> has_pending_data tb
                                      then snd (buffer_append_data art1 (vertical_symbol tb))
                                      else art1);
                              (d, len_pad) = buffer_get_safe_data x (scols_table_is_noencoding tb)
                                               (buffer_get_data art2) None;
                              tb1 = tb\<lparr>tb_heap := h'\<rparr>
                          in (case d of
                                None \<Rightarrow> (tb1, len_pad)
                              | Some t \<Rightarrow> (if len_pad \<noteq> 0 then fputs t tb1 else tb1, len_pad))))))"

text \<open>\<^verbatim>\<open>print_empty_cell(tb, cl, ln, bufsz)\<close>, for the column at position \<open>i\<close>.\<close>

definition print_empty_cell ::
  "extern \<Rightarrow> libscols_table \<Rightarrow> nat \<Rightarrow> libscols_line option \<Rightarrow> nat \<Rightarrow> libscols_table" where
  "print_empty_cell x tb i ln bsz =
     (case print_empty_cell_art x tb i ln bsz of
        (tb1, len_pad) \<Rightarrow>
          if scols_table_is_minout tb1 \<and> is_next_columns_empty tb1 i ln then tb1
          else if \<not> scols_table_is_maxout tb1 \<and> is_last_column tb1 i then tb1
          else (let tb2 = fill_padding len_pad (cl_width (tb_columns tb1 ! i)) tb1
                in if \<not> is_last_column tb2 i then fputs (tb_colsep tb2) tb2 else tb2))"

definition get_cell_color ::
  "libscols_table \<Rightarrow> libscols_column \<Rightarrow> libscols_line option \<Rightarrow> libscols_cell option
     \<Rightarrow> string option" where
  "get_cell_color tb cl ln ce =
     (if colors_wanted tb
      then (let c1 = (case ce of None \<Rightarrow> None | Some c \<Rightarrow> ce_color c);
                c2 = (case ln of
                        None \<Rightarrow> c1
                      | Some l \<Rightarrow> if c1 = None then ln_color l else c1)
            in if c2 = None then cl_color cl else c2)
      else None)"

text \<open>\<^verbatim>\<open>print_newline_padding\<close>: the line break, then an empty cell for every sequence
  index up to the one of the current column. The source hands the result of
  \<^verbatim>\<open>scols_table_get_column\<close> on without a NULL check; an index no column has is passed
  over here.\<close>

definition print_newline_padding ::
  "extern \<Rightarrow> libscols_table \<Rightarrow> nat \<Rightarrow> libscols_line option \<Rightarrow> nat \<Rightarrow> libscols_table" where
  "print_newline_padding x tb i ln bsz =
     (let tb1 = (fputs (tb_linesep tb) tb)\<lparr>termlines_used := termlines_used tb + 1\<rparr>
      in fold (\<lambda>n t. case scols_table_get_column t n of
                        None \<Rightarrow> t
                      | Some j \<Rightarrow> print_empty_cell x t j ln bsz)
              [0..<Suc (cl_seqnum (tb_columns tb ! i))] tb1)"

subsection \<open>Printing pending data\<close>

text \<open>Writing the column at position \<open>i\<close> back into the table.\<close>

definition put_column :: "libscols_table \<Rightarrow> nat \<Rightarrow> libscols_column \<times> heap \<Rightarrow> libscols_table" where
  "put_column tb i ch = tb\<lparr>tb_columns := (tb_columns tb)[i := fst ch], tb_heap := snd ch\<rparr>"

text \<open>The text written for a cell with its colour sequences:
  \<^verbatim>\<open>if (color) fputs(color); fputs(data); if (color) fputs(UL_COLOR_RESET)\<close>.\<close>

definition fputs_colored :: "extern \<Rightarrow> string option \<Rightarrow> string \<Rightarrow> libscols_table \<Rightarrow> libscols_table" where
  "fputs_colored x color d tb =
     (case color of
        None \<Rightarrow> fputs d tb
      | Some c \<Rightarrow> fputs (UL_COLOR_RESET x) (fputs d (fputs c tb)))"

text \<open>Lines 417--432 of \<^verbatim>\<open>print_pending_data\<close>: the fill after the text of an extra
  line, \<open>len\<close> cells wide, in a column of the given width.\<close>

definition print_pending_data_fill ::
  "libscols_table \<Rightarrow> nat \<Rightarrow> libscols_line option \<Rightarrow> nat \<Rightarrow> nat \<Rightarrow> libscols_table" where
  "print_pending_data_fill tb i ln len width =
     (if scols_table_is_minout tb \<and> is_next_columns_empty tb i ln then tb
      else if \<not> scols_table_is_maxout tb \<and> is_last_column tb i then tb
      else (let tb3 = fill_padding len width tb
            in if \<not> is_last_column tb3 i then fputs (tb_colsep tb3) tb3 else tb3))"

text \<open>Lines 394--403 of \<^verbatim>\<open>print_pending_data\<close>: the part of the pending text that the
  extra line gets, as \<^verbatim>\<open>bytes\<close> (\<open>None\<close>: \<^verbatim>\<open>(size_t) -1\<close>), its width \<^verbatim>\<open>len\<close>, the
  text itself and \<^verbatim>\<open>errno\<close>: the chunk that the custom wrap callback ends, if there is
  a callback and it finds a next chunk, else the text truncated to the column width.\<close>

definition print_pending_data_chunk ::
  "extern \<Rightarrow> libscols_table \<Rightarrow> libscols_column \<Rightarrow> nat option \<times> nat \<times> string \<times> int" where
  "print_pending_data_chunk x tb cl =
     (let d = pending_text cl;
          nextchunk = (if scols_column_is_customwrap cl
                       then (case wrap_nextchunk cl of None \<Rightarrow> None | Some f \<Rightarrow> f d)
                       else None)
      in (case nextchunk of
            Some (j, k) \<Rightarrow>
              (Some k,
               if scols_table_is_noencoding tb
               then mbs_nwidth x (chunk_head d j) k
               else mbs_safe_nwidth x (chunk_head d j) k,
               chunk_head d j, 0)
          | None \<Rightarrow> mbs_truncate x d (cl_width cl)))"

text \<open>\<^verbatim>\<open>print_pending_data(tb, cl, ln, ce)\<close>. The label \<^verbatim>\<open>err\<close> returns \<^verbatim>\<open>-errno\<close>:
  \<^verbatim>\<open>ENOMEM\<close> after a failed \<^verbatim>\<open>strdup\<close>, the value left by \<^verbatim>\<open>mbs_truncate\<close> after a
  failed truncation.\<close>

definition print_pending_data ::
  "extern \<Rightarrow> libscols_table \<Rightarrow> nat \<Rightarrow> libscols_line option \<Rightarrow> libscols_cell option
     \<Rightarrow> int \<times> libscols_table" where
  "print_pending_data x tb i ln ce =
     (let cl = tb_columns tb ! i;
          color = get_cell_color tb cl ln ce;
          width = cl_width cl
      in if pending_data cl = None then (0, tb)
         else if width = 0 then (- EINVAL, tb)
         else (case alloc (tb_heap tb) of
                 (False, h') \<Rightarrow> (- ENOMEM, tb\<lparr>tb_heap := h'\<rparr>)
               | (True, h') \<Rightarrow>
                   (let tb0 = tb\<lparr>tb_heap := h'\<rparr>;
                        (bytes, len, d', eno) = print_pending_data_chunk x tb cl
                    in (case bytes of
                          None \<Rightarrow> (- eno, tb0)
                        | Some b \<Rightarrow>
                            (let tb1 = (if b \<noteq> 0
                                        then put_column tb0 i
                                               (snd (step_pending_data (tb_heap tb0) cl b))
                                        else tb0)
                             in (0, print_pending_data_fill (fputs_colored x color d' tb1)
                                      i ln len width))))))"

subsection \<open>Printing one cell\<close>

text \<open>The locals of \<^verbatim>\<open>print_data\<close> on the human path: the text (\<open>None\<close>: NULL), its width
  in cells \<^verbatim>\<open>len\<close>, its size \<^verbatim>\<open>bytes\<close> (\<open>None\<close>: \<^verbatim>\<open>(size_t) -1\<close>) and the effective
  width \<^verbatim>\<open>width\<close>.\<close>

record cell_locals =
  lc_data :: "string option"
  lc_len :: nat
  lc_bytes :: "nat option"
  lc_width :: nat

text \<open>Subtraction of \<^verbatim>\<open>size_t\<close> values, which wraps around.\<close>

definition size_sub :: "nat \<Rightarrow> nat \<Rightarrow> nat" where
  "size_sub a b = (if b \<le> a then a - b else 2 ^ 64 - (b - a))"

text \<open>Lines 541--556: the text is encoded and measured; with a custom wrap callback that
  finds a next chunk, the rest becomes pending data and only the first chunk is measured.\<close>

definition print_data_encode ::
  "extern \<Rightarrow> libscols_table \<Rightarrow> nat \<Rightarrow> libscols_buffer \<Rightarrow> libscols_table \<times> cell_locals" where
  "print_data_encode x tb i buf =
     (let cl = tb_columns tb ! i;
          (sd, len) = buffer_get_safe_data x (scols_table_is_noencoding tb) (buffer_get_data buf)
                        (cl_safechars cl);
          d = (case sd of None \<Rightarrow> [] | Some t \<Rightarrow> t);
          bytes = length d;
          width = cl_width cl;
          nextchunk = (if d \<noteq> [] \<and> scols_column_is_customwrap cl
                       then (case wrap_nextchunk cl of None \<Rightarrow> None | Some f \<Rightarrow> f d)
                       else None)
      in (case nextchunk of
            None \<Rightarrow> (tb, \<lparr>lc_data = Some d, lc_len = len, lc_bytes = Some bytes, lc_width = width\<rparr>)
          | Some (j, k) \<Rightarrow>
              (case set_pending_data (tb_heap tb) cl (Some (chunk_next d j k)) (size_sub bytes k) of
                 (rc, ch) \<Rightarrow>
                   (put_column tb i ch,
                    \<lparr>lc_data = Some (chunk_head d j),
                     lc_len = (if scols_table_is_noencoding tb
                               then mbs_nwidth x (chunk_head d j) k
                               else mbs_safe_nwidth x (chunk_head d j) k),
                     lc_bytes = Some k, lc_width = width\<rparr>))))"

text \<open>Lines 558--562: a short text in the last column shrinks the effective width.\<close>

definition print_data_width :: "libscols_table \<Rightarrow> nat \<Rightarrow> bool \<Rightarrow> cell_locals \<Rightarrow> cell_locals" where
  "print_data_width tb i is_last lc =
     (if is_last \<and> lc_len lc < lc_width lc \<and> \<not> scols_table_is_maxout tb
         \<and> \<not> scols_column_is_right (tb_columns tb ! i)
      then lc\<lparr>lc_width := lc_len lc\<rparr> else lc)"

text \<open>Lines 565--568: truncation.\<close>

definition print_data_trunc :: "extern \<Rightarrow> libscols_column \<Rightarrow> cell_locals \<Rightarrow> cell_locals" where
  "print_data_trunc x cl lc =
     (if lc_len lc > lc_width lc \<and> scols_column_is_trunc cl
      then (case mbs_truncate x (case lc_data lc of None \<Rightarrow> [] | Some t \<Rightarrow> t) (lc_width lc) of
              (bytes, len, d, eno) \<Rightarrow> lc\<lparr>lc_data := Some d, lc_len := len, lc_bytes := bytes\<rparr>)
      else lc)"

text \<open>Lines 571--579: a standard multi-line cell. The whole text becomes pending data, the
  first line is cut off it. The return codes of \<^verbatim>\<open>set_pending_data\<close> and
  \<^verbatim>\<open>step_pending_data\<close> are not looked at, as in the source.\<close>

definition print_data_wrap ::
  "extern \<Rightarrow> libscols_table \<Rightarrow> nat \<Rightarrow> cell_locals \<Rightarrow> libscols_table \<times> cell_locals" where
  "print_data_wrap x tb i lc =
     (let cl = tb_columns tb ! i
      in if lc_len lc > lc_width lc \<and> scols_column_is_wrap cl \<and> \<not> scols_column_is_customwrap cl
         then (case set_pending_data (tb_heap tb) cl (lc_data lc) (size_of_bytes (lc_bytes lc)) of
                 (rc, cl1, h1) \<Rightarrow>
                   (case mbs_truncate x (case lc_data lc of None \<Rightarrow> [] | Some t \<Rightarrow> t) (lc_width lc) of
                      (bytes, len, d, eno) \<Rightarrow>
                        (put_column tb i
                           (case bytes of
                              None \<Rightarrow> (cl1, h1)
                            | Some b \<Rightarrow> if b > 0 then snd (step_pending_data h1 cl1 b) else (cl1, h1)),
                         lc\<lparr>lc_data := Some d, lc_len := len, lc_bytes := bytes\<rparr>)))
         else (tb, lc))"

text \<open>Lines 581--584: a failed truncation empties the cell.\<close>

definition print_data_failed :: "cell_locals \<Rightarrow> cell_locals" where
  "print_data_failed lc =
     (if lc_bytes lc = None then lc\<lparr>lc_data := None, lc_len := 0, lc_bytes := Some 0\<rparr> else lc)"

text \<open>Lines 586--612: the text is written, right-aligned columns behind their padding,
  coloured text behind its uncoloured art.\<close>

definition print_data_emit ::
  "extern \<Rightarrow> libscols_table \<Rightarrow> nat \<Rightarrow> string option \<Rightarrow> libscols_buffer \<Rightarrow> cell_locals
     \<Rightarrow> libscols_table \<times> cell_locals" where
  "print_data_emit x tb i color buf lc =
     (let cl = tb_columns tb ! i
      in (case lc_data lc of
            None \<Rightarrow> (tb, lc)
          | Some d \<Rightarrow>
              if d = [] then (tb, lc)
              else if scols_column_is_right cl
              then (let tb1 = (case color of None \<Rightarrow> tb | Some c \<Rightarrow> fputs c tb);
                        tb2 = fputs d (fill_padding (lc_len lc) (lc_width lc) tb1);
                        tb3 = (case color of None \<Rightarrow> tb2 | Some c \<Rightarrow> fputs (UL_COLOR_RESET x) tb2)
                    in (tb3, lc\<lparr>lc_len := lc_width lc\<rparr>))
              else (case color of
                      Some c \<Rightarrow>
                        (let art = buffer_get_safe_art_size x (buffer_get_data buf) (art_idx buf)
                         in if scols_column_is_tree cl \<and> art \<noteq> 0 \<and> art < size_of_bytes (lc_bytes lc)
                            then (fputs (UL_COLOR_RESET x)
                                    (fputs (drop art d) (fputs c (fputs (take art d) tb))), lc)
                            else (fputs (UL_COLOR_RESET x) (fputs d (fputs c tb)), lc))
                    | None \<Rightarrow> (fputs d tb, lc))))"

text \<open>Lines 614--633: the fill policy, then the line break after an overlong cell or
  the column separator.\<close>

definition print_data_fill ::
  "extern \<Rightarrow> libscols_table \<Rightarrow> nat \<Rightarrow> libscols_line option \<Rightarrow> bool \<Rightarrow> libscols_buffer
     \<Rightarrow> cell_locals \<Rightarrow> libscols_table" where
  "print_data_fill x tb i ln is_last buf lc =
     (if scols_table_is_minout tb \<and> is_next_columns_empty tb i ln then tb
      else if \<not> scols_table_is_maxout tb \<and> is_last then tb
      else (let tb1 = fill_padding (lc_len lc) (lc_width lc) tb
            in if lc_len lc > lc_width lc \<and> \<not> scols_column_is_trunc (tb_columns tb1 ! i)
               then print_newline_padding x tb1 i ln (buffer_get_size buf)
               else if \<not> is_last then fputs (tb_colsep tb1) tb1
               else tb1))"

text \<open>Lines 537--612 of \<^verbatim>\<open>print_data\<close>, the steps above in the order of the source: the
  table after the text of the cell has been written, and the locals at that point.\<close>

definition print_data_text ::
  "extern \<Rightarrow> libscols_table \<Rightarrow> nat \<Rightarrow> libscols_line option \<Rightarrow> libscols_cell option
     \<Rightarrow> libscols_buffer \<Rightarrow> bool \<Rightarrow> libscols_table \<times> cell_locals" where
  "print_data_text x tb i ln ce buf is_last =
     (let color = get_cell_color tb (tb_columns tb ! i) ln ce;
          (tb1, lc1) = print_data_encode x tb i buf;
          lc2 = print_data_width tb1 i is_last lc1;
          lc3 = print_data_trunc x (tb_columns tb1 ! i) lc2;
          (tb4, lc4) = print_data_wrap x tb1 i lc3;
          lc5 = print_data_failed lc4
      in print_data_emit x tb4 i color buf lc5)"

text \<open>The human path of \<^verbatim>\<open>print_data\<close>: the text, then the fill.\<close>

definition print_data_human ::
  "extern \<Rightarrow> libscols_table \<Rightarrow> nat \<Rightarrow> libscols_line option \<Rightarrow> libscols_cell option
     \<Rightarrow> libscols_buffer \<Rightarrow> bool \<Rightarrow> libscols_table" where
  "print_data_human x tb i ln ce buf is_last =
     (case print_data_text x tb i ln ce buf is_last of
        (tb6, lc6) \<Rightarrow> print_data_fill x tb6 i ln is_last buf lc6)"

text \<open>\<^verbatim>\<open>print_data(tb, cl, ln, ce, buf)\<close> for the column at position \<open>i\<close>. The result is
  \<open>None\<close> when the chunk loop of a JSON array does not end. A header without text is
  written as the empty name.\<close>

definition print_data ::
  "extern \<Rightarrow> libscols_table \<Rightarrow> nat \<Rightarrow> libscols_line option \<Rightarrow> libscols_cell option
     \<Rightarrow> libscols_buffer \<Rightarrow> (int \<times> libscols_table) option" where
  "print_data x tb i ln ce buf =
     (let cl = tb_columns tb ! i;
          d = buffer_get_data buf;
          name = (if tb_format tb \<noteq> SCOLS_FMT_HUMAN then scols_cell_get_data (cl_header cl)
                  else None);
          is_last0 = is_last_column tb i;
          is_last = (if is_last0 \<and> scols_table_is_json tb \<and> scols_table_is_tree tb
                        \<and> (case ln of None \<Rightarrow> False | Some l \<Rightarrow> ln_has_children l)
                     then False else is_last0)
      in (case tb_format tb of
            SCOLS_FMT_RAW \<Rightarrow>
              (let tb1 = fputs (fputs_nonblank x d) tb
               in Some (0, if \<not> is_last then fputs (tb_colsep tb1) tb1 else tb1))
          | SCOLS_FMT_EXPORT \<Rightarrow>
              (let nm = (case name of None \<Rightarrow> [] | Some n \<Rightarrow> n);
                   tb1 = fputs (fputs_shell_ident x nm) tb;
                   tb2 = (if nm \<noteq> [] \<and> last nm = CHR ''%'' then fputs ''PCT'' tb1 else tb1);
                   tb3 = fputs (fputs_quoted x d) (fputs ''='' tb2)
               in Some (0, if \<not> is_last then fputs (tb_colsep tb3) tb3 else tb3))
          | SCOLS_FMT_JSON \<Rightarrow>
              (case print_json_data cl name d is_last of
                 None \<Rightarrow> None
               | Some js \<Rightarrow> Some (0, tb\<lparr>tb_json := tb_json tb @ js\<rparr>))
          | SCOLS_FMT_HUMAN \<Rightarrow> Some (0, print_data_human x tb i ln ce buf is_last)))"

subsection \<open>Filling the scratch buffer for a cell\<close>

text \<open>\<^verbatim>\<open>__cell_to_buffer(tb, ln, cl, buf)\<close> for the column at position \<open>i\<close>.\<close>

definition cell_to_buffer ::
  "extern \<Rightarrow> libscols_table \<Rightarrow> libscols_line \<Rightarrow> nat \<Rightarrow> libscols_buffer
     \<Rightarrow> (int \<times> libscols_buffer) option" where
  "cell_to_buffer x tb ln i buf =
     (let cl = tb_columns tb ! i;
          buf0 = buffer_reset_data buf;
          d = (case scols_line_get_cell ln (cl_seqnum cl) of
                 None \<Rightarrow> None
               | Some ce \<Rightarrow> scols_cell_get_data ce)
      in if \<not> scols_column_is_tree cl
         then (case d of None \<Rightarrow> Some (0, buf0) | Some t \<Rightarrow> Some (buffer_set_data buf0 t))
         else (case (if \<not> scols_table_is_json tb \<and> cl_is_groups cl
                     then groups_ascii_art_to_buffer x tb buf0 else Some (0, buf0)) of
                 None \<Rightarrow> None
               | Some (rc1, buf1) \<Rightarrow>
                   (let (rc2, buf2) =
                          (case ln_parent ln of
                             Some p \<Rightarrow>
                               if rc1 = 0 \<and> \<not> scols_table_is_json tb
                               then (case tree_ascii_art_to_buffer tb p buf1 of
                                       (rc, b) \<Rightarrow>
                                         if rc = 0 \<and> ln_last_child ln
                                         then buffer_append_data b (right_symbol tb)
                                         else if rc = 0
                                         then buffer_append_data b (branch_symbol tb)
                                         else (rc, b))
                               else (rc1, buf1)
                           | None \<Rightarrow> (rc1, buf1));
                        buf3 = (if rc2 = 0 \<and> (ln_parent ln \<noteq> None \<or> cl_is_groups cl)
                                   \<and> \<not> scols_table_is_json tb
                                then buffer_set_art_index buf2 else buf2)
                    in (case d of
                          None \<Rightarrow> Some (rc2, buf3)
                        | Some t \<Rightarrow> if rc2 = 0 then Some (buffer_append_data buf3 t)
                                    else Some (rc2, buf3)))))"

subsection \<open>Printing a line\<close>

text \<open>The state of the loops of \<^verbatim>\<open>print_line\<close>: the locals \<^verbatim>\<open>rc\<close> and
  \<^verbatim>\<open>pending\<close>, the table and the scratch buffer.\<close>

record line_state =
  ls_rc :: int
  ls_pending :: bool
  ls_tb :: libscols_table
  ls_buf :: libscols_buffer

text \<open>The first loop of \<^verbatim>\<open>print_line\<close>, over the positions of the columns: the regular
  line. The loop is left as soon as \<^verbatim>\<open>rc\<close> is not 0.\<close>

fun print_line_regular ::
  "extern \<Rightarrow> libscols_line \<Rightarrow> nat list \<Rightarrow> line_state \<Rightarrow> line_state option" where
  "print_line_regular x ln [] st = Some st"
| "print_line_regular x ln (i # is) st =
     (if ls_rc st \<noteq> 0 then Some st
      else if scols_column_is_hidden (tb_columns (ls_tb st) ! i) then print_line_regular x ln is st
      else (case cell_to_buffer x (ls_tb st) ln i (ls_buf st) of
              None \<Rightarrow> None
            | Some (rc1, buf1) \<Rightarrow>
                if rc1 \<noteq> 0 then print_line_regular x ln is (st\<lparr>ls_rc := rc1, ls_buf := buf1\<rparr>)
                else (case print_data x (ls_tb st) i (Some ln)
                             (scols_line_get_cell ln (cl_seqnum (tb_columns (ls_tb st) ! i))) buf1 of
                        None \<Rightarrow> None
                      | Some (rc2, tb2) \<Rightarrow>
                          print_line_regular x ln is
                            (st\<lparr>ls_rc := rc2,
                                ls_pending := (ls_pending st
                                   \<or> (rc2 = 0 \<and> pending_data (tb_columns tb2 ! i) \<noteq> None)),
                                ls_tb := tb2, ls_buf := buf1\<rparr>))))"

text \<open>One extra line: the inner loop over the columns that prints the pending data of a
  column or an empty cell.\<close>

fun print_line_pending ::
  "extern \<Rightarrow> libscols_line \<Rightarrow> nat list \<Rightarrow> line_state \<Rightarrow> line_state" where
  "print_line_pending x ln [] st = st"
| "print_line_pending x ln (i # is) st =
     (if ls_rc st \<noteq> 0 then st
      else if scols_column_is_hidden (tb_columns (ls_tb st) ! i) then print_line_pending x ln is st
      else if pending_data (tb_columns (ls_tb st) ! i) \<noteq> None
      then (case print_pending_data x (ls_tb st) i (Some ln)
                   (scols_line_get_cell ln (cl_seqnum (tb_columns (ls_tb st) ! i))) of
              (rc, tb1) \<Rightarrow>
                print_line_pending x ln is
                  (st\<lparr>ls_rc := rc,
                      ls_pending := (ls_pending st
                         \<or> (rc = 0 \<and> pending_data (tb_columns tb1 ! i) \<noteq> None)),
                      ls_tb := tb1\<rparr>))
      else print_line_pending x ln is
             (st\<lparr>ls_tb := print_empty_cell x (ls_tb st) i (Some ln) (buffer_get_size (ls_buf st))\<rparr>))"

text \<open>The second loop of \<^verbatim>\<open>print_line\<close>: \<^verbatim>\<open>while (rc == 0 && pending)\<close>, one extra
  line per round. The loop need not end (a cell that never gives up a byte stays pending),
  so it runs on fuel: \<open>None\<close> when the fuel is used up before the loop is left.\<close>

fun print_line_extra :: "extern \<Rightarrow> nat \<Rightarrow> libscols_line \<Rightarrow> line_state \<Rightarrow> line_state option" where
  "print_line_extra x 0 ln st = (if ls_rc st = 0 \<and> ls_pending st then None else Some st)"
| "print_line_extra x (Suc n) ln st =
     (if ls_rc st = 0 \<and> ls_pending st
      then (let tb1 = (fputs (tb_linesep (ls_tb st)) (ls_tb st))
                        \<lparr>termlines_used := termlines_used (ls_tb st) + 1\<rparr>
            in print_line_extra x n ln
                 (print_line_pending x ln [0..<length (tb_columns tb1)]
                    (st\<lparr>ls_pending := False, ls_tb := tb1\<rparr>)))
      else Some st)"

text \<open>\<^verbatim>\<open>print_line(tb, ln, buf)\<close>. Its last statement is \<^verbatim>\<open>return 0\<close>.\<close>

definition print_line ::
  "extern \<Rightarrow> nat \<Rightarrow> libscols_table \<Rightarrow> libscols_line \<Rightarrow> libscols_buffer
     \<Rightarrow> (int \<times> libscols_table \<times> libscols_buffer) option" where
  "print_line x fuel tb ln buf =
     (case print_line_regular x ln [0..<length (tb_columns tb)]
             \<lparr>ls_rc = 0, ls_pending = False, ls_tb = tb, ls_buf = buf\<rparr> of
        None \<Rightarrow> None
      | Some st1 \<Rightarrow>
          (case print_line_extra x fuel ln st1 of
             None \<Rightarrow> None
           | Some st2 \<Rightarrow> Some (0, ls_tb st2, ls_buf st2)))"

subsection \<open>Header, range and tree walkers\<close>

text \<open>The loop of \<^verbatim>\<open>__scols_print_header\<close> over the columns.\<close>

fun print_header_loop :: "extern \<Rightarrow> nat list \<Rightarrow> line_state \<Rightarrow> line_state option" where
  "print_header_loop x [] st = Some st"
| "print_header_loop x (i # is) st =
     (if ls_rc st \<noteq> 0 then Some st
      else if scols_column_is_hidden (tb_columns (ls_tb st) ! i) then print_header_loop x is st
      else (let tb = ls_tb st;
                cl = tb_columns tb ! i;
                buf0 = buffer_reset_data (ls_buf st);
                (rc1, buf1) = (if cl_is_groups cl \<and> scols_table_is_tree tb \<and> scols_column_is_tree cl
                               then buffer_append_ntimes buf0 (length (grpset tb) + 1) '' ''
                               else (0, buf0));
                (rc2, buf2) = (if rc1 = 0
                               then (case scols_cell_get_data (cl_header cl) of
                                       None \<Rightarrow> (0, buf1)
                                     | Some t \<Rightarrow> buffer_append_data buf1 t)
                               else (rc1, buf1))
            in if rc2 \<noteq> 0 then print_header_loop x is (st\<lparr>ls_rc := rc2, ls_buf := buf2\<rparr>)
               else (case print_data x tb i None (Some (cl_header cl)) buf2 of
                       None \<Rightarrow> None
                     | Some (rc3, tb3) \<Rightarrow>
                         print_header_loop x is (st\<lparr>ls_rc := rc3, ls_tb := tb3, ls_buf := buf2\<rparr>))))"

text \<open>\<^verbatim>\<open>__scols_print_header(tb, buf)\<close>; \<^verbatim>\<open>list_empty(&tb->tb_lines)\<close> is the test
  that the table has no lines.\<close>

definition scols_print_header ::
  "extern \<Rightarrow> libscols_table \<Rightarrow> libscols_buffer \<Rightarrow> (int \<times> libscols_table \<times> libscols_buffer) option" where
  "scols_print_header x tb buf =
     (if (header_printed tb \<and> \<not> header_repeat tb)
         \<or> scols_table_is_noheadings tb
         \<or> scols_table_is_export tb
         \<or> scols_table_is_json tb
         \<or> tb_lines tb = []
      then Some (0, tb, buf)
      else (case print_header_loop x [0..<length (tb_columns tb)]
                   \<lparr>ls_rc = 0, ls_pending = False, ls_tb = tb, ls_buf = buf\<rparr> of
              None \<Rightarrow> None
            | Some st \<Rightarrow>
                (let tb1 = (if ls_rc st = 0
                            then (fputs (tb_linesep (ls_tb st)) (ls_tb st))
                                   \<lparr>termlines_used := termlines_used (ls_tb st) + 1\<rparr>
                            else ls_tb st);
                     tb2 = tb1\<lparr>header_printed := True,
                               header_next := termlines_used tb1 + termheight tb1\<rparr>
                 in Some (ls_rc st, tb2, ls_buf st))))"

text \<open>The loop of \<^verbatim>\<open>__scols_print_range\<close> over the lines that the iterator has still
  to give, \<open>itr\<close> being the position of the first of them in \<open>tb_lines\<close> and \<open>end\<close> the
  position of the end line (\<open>None\<close>: NULL). The return code of the repeated header is not
  looked at, as in the source.\<close>

fun print_range_loop ::
  "extern \<Rightarrow> nat \<Rightarrow> nat option \<Rightarrow> libscols_line list \<Rightarrow> int \<Rightarrow> libscols_table \<Rightarrow> libscols_buffer
     \<Rightarrow> nat \<Rightarrow> (int \<times> libscols_table \<times> libscols_buffer \<times> nat) option" where
  "print_range_loop x fuel end [] rc tb buf itr = Some (rc, tb, buf, itr)"
| "print_range_loop x fuel end (ln # lns) rc tb buf itr =
     (if rc \<noteq> 0 then Some (rc, tb, buf, itr)
      else (let lastl = (lns = []);
                tb0 = (if scols_table_is_json tb then tb\<lparr>tb_json := tb_json tb @ [Jobject_open None]\<rparr>
                       else tb)
            in (case print_line x fuel tb0 ln buf of
                  None \<Rightarrow> None
                | Some (rc1, tb1, buf1) \<Rightarrow>
                    (let tb2 = (if scols_table_is_json tb1
                                then tb1\<lparr>tb_json := tb_json tb1 @ [Jobject_close lastl]\<rparr>
                                else if \<not> lastl \<and> \<not> no_linesep tb1
                                then (fputs (tb_linesep tb1) tb1)
                                       \<lparr>termlines_used := termlines_used tb1 + 1\<rparr>
                                else tb1)
                     in if end = Some itr then Some (rc1, tb2, buf1, Suc itr)
                        else if \<not> lastl \<and> want_repeat_header tb2
                        then (case scols_print_header x tb2 buf1 of
                                None \<Rightarrow> None
                              | Some (rch, tb3, buf3) \<Rightarrow>
                                  print_range_loop x fuel end lns rc1 tb3 buf3 (Suc itr))
                        else print_range_loop x fuel end lns rc1 tb2 buf1 (Suc itr)))))"

text \<open>\<^verbatim>\<open>__scols_print_range(tb, buf, itr, end)\<close>: the result is the return code, the
  table, the buffer and the iterator.\<close>

definition scols_print_range ::
  "extern \<Rightarrow> nat \<Rightarrow> libscols_table \<Rightarrow> libscols_buffer \<Rightarrow> nat \<Rightarrow> nat option
     \<Rightarrow> (int \<times> libscols_table \<times> libscols_buffer \<times> nat) option" where
  "scols_print_range x fuel tb buf itr end =
     print_range_loop x fuel end (drop itr (tb_lines tb)) 0 tb buf itr"

text \<open>\<^verbatim>\<open>__scols_print_table(tb, buf)\<close>: the whole table as one range.\<close>

definition scols_print_table ::
  "extern \<Rightarrow> nat \<Rightarrow> libscols_table \<Rightarrow> libscols_buffer
     \<Rightarrow> (int \<times> libscols_table \<times> libscols_buffer \<times> nat) option" where
  "scols_print_table x fuel tb buf = scols_print_range x fuel tb buf 0 None"

text \<open>The \<^verbatim>\<open>do ... while (ln && last)\<close> loop of \<^verbatim>\<open>print_tree_line\<close> that closes the
  open JSON objects and arrays, up the chain of parents.\<close>

fun json_close_parents :: "extern \<Rightarrow> libscols_line \<Rightarrow> json_call list" where
  "json_close_parents x (Line cells col parent lastc ch) =
     (let ln = Line cells col parent lastc ch;
          lastl = ((is_child x ln \<and> lastc)
                   \<or> (is_tree_root x ln \<and> is_last_tree_root x ln));
          js = [Jobject_close lastl] @ (if lastl \<and> is_child x ln then [Jarray_close lastl] else [])
      in (case parent of
            None \<Rightarrow> js
          | Some p \<Rightarrow> if lastl then js @ json_close_parents x p else js))"

text \<open>\<^verbatim>\<open>print_tree_line\<close>, the callback of the tree walker.\<close>

definition print_tree_line ::
  "extern \<Rightarrow> nat \<Rightarrow> libscols_table \<Rightarrow> libscols_line \<Rightarrow> libscols_buffer
     \<Rightarrow> (int \<times> libscols_table \<times> libscols_buffer) option" where
  "print_tree_line x fuel tb ln buf =
     (let tb0 = (if scols_table_is_json tb then tb\<lparr>tb_json := tb_json tb @ [Jobject_open None]\<rparr>
                 else tb)
      in (case print_line x fuel tb0 ln buf of
            None \<Rightarrow> None
          | Some (rc, tb1, buf1) \<Rightarrow>
              if rc \<noteq> 0 then Some (rc, tb1, buf1)
              else if ln_has_children ln
              then (if scols_table_is_json tb1
                    then Some (0, tb1\<lparr>tb_json := tb_json tb1 @ [Jarray_open (Some ''children'')]\<rparr>, buf1)
                    else Some (0, (fputs (tb_linesep tb1) tb1)
                                    \<lparr>termlines_used := termlines_used tb1 + 1\<rparr>, buf1))
              else if scols_table_is_json tb1
              then Some (0, tb1\<lparr>tb_json := tb_json tb1 @ json_close_parents x ln\<rparr>, buf1)
              else if \<not> no_linesep tb1 \<and> \<not> scols_walk_is_last x ln
              then Some (0, (fputs (tb_linesep tb1) tb1)
                              \<lparr>termlines_used := termlines_used tb1 + 1\<rparr>, buf1)
              else Some (0, tb1, buf1)))"

subsection \<open>Example data\<close>

text \<open>Modelled from the spec: text services for text made of single-byte printable
  characters, where every byte takes one screen cell and nothing is escaped (``measure
  display width of a byte span; truncate a byte span to a target display width (returns
  consumed byte count, or a sentinel failure value on invalid encoding)''). The byte 0xFF
  stands for a malformed multi-byte sequence: truncating a text that holds it fails with
  \<^verbatim>\<open>EILSEQ\<close>.\<close>

definition ascii_truncate :: "string \<Rightarrow> nat \<Rightarrow> nat option \<times> nat \<times> string \<times> int" where
  "ascii_truncate d w =
     (if CHR 0xFF \<in> set d then (None, w, d, EILSEQ)
      else (Some (min (length d) w), min (length d) w, take w d, 0))"

definition ascii_services :: extern where
  "ascii_services =
     \<lparr>mbs_width = length,
      mbs_safe_width = length,
      mbs_nwidth = (\<lambda>d n. min (length d) n),
      mbs_safe_nwidth = (\<lambda>d n. min (length d) n),
      mbs_truncate = ascii_truncate,
      buffer_get_safe_data = (\<lambda>noenc d safechars. if d = [] then (None, 0) else (Some d, length d)),
      buffer_get_safe_art_size = (\<lambda>d a. a),
      fputs_nonblank = (\<lambda>d. d),
      fputs_shell_ident = (\<lambda>d. d),
      fputs_quoted = (\<lambda>d. [CHR 0x22] @ d @ [CHR 0x22]),
      UL_COLOR_RESET = [CHR 0x1B, CHR ''['', CHR ''0'', CHR ''m''],
      SCOLS_GRPSET_CHUNKSIZ = 3,
      is_child = (\<lambda>ln. ln_parent ln \<noteq> None),
      is_tree_root = (\<lambda>ln. ln_parent ln = None),
      is_last_tree_root = (\<lambda>ln. True),
      scols_walk_is_last = (\<lambda>ln. False)\<rparr>"

definition no_symbols :: libscols_symbols where
  "no_symbols =
     \<lparr>tree_branch = None, tree_vert = None, tree_right = None, group_vert = None,
      group_horz = None, group_first_member = None, group_last_member = None,
      group_middle_member = None, group_last_child = None, group_middle_child = None,
      title_padding = None, cell_padding = None\<rparr>"

text \<open>A plain visible column of the given sequence index and width, without pending
  data.\<close>

definition plain_column :: "nat \<Rightarrow> nat \<Rightarrow> libscols_column" where
  "plain_column n w =
     \<lparr>cl_seqnum = n, cl_width = w, cl_color = None, cl_safechars = None,
      cl_header = \<lparr>ce_data = Some ''H'', ce_color = None\<rparr>,
      cl_json_type = SCOLS_JSON_STRING,
      fl_tree = False, fl_right = False, fl_trunc = False, fl_wrap = False, fl_hidden = False,
      cl_is_groups = False, wrap_nextchunk = None,
      pending_data_buf = None, pending_data = None, pending_data_sz = 0\<rparr>"

text \<open>A human-format table of the given columns and lines, with nothing printed yet.\<close>

definition plain_table :: "libscols_column list \<Rightarrow> libscols_line list \<Rightarrow> libscols_table" where
  "plain_table cls lns =
     \<lparr>tb_format = SCOLS_FMT_HUMAN, tb_columns = cls, tb_lines = lns, tb_symbols = no_symbols,
      tb_colsep = '' '', tb_linesep = [CHR 0x0A],
      padding_debug = False, colors_wanted = False, no_encode = False,
      maxout = False, minout = False, no_headings = False, no_linesep = False,
      tb_is_tree = False, header_printed = False, header_repeat = False, header_next = 0,
      termlines_used = 0, termheight = 0, is_dummy_print = False, tb_has_groups = False,
      grpset = [], tb_out = [], tb_json = [], tb_heap = []\<rparr>"

definition text_cell :: "string \<Rightarrow> libscols_cell" where
  "text_cell d = \<lparr>ce_data = Some d, ce_color = None\<rparr>"

text \<open>A line without parent and children.\<close>

definition root_line :: "libscols_cell list \<Rightarrow> libscols_line" where
  "root_line cells = Line cells None None False False"

definition scratch_buffer :: "nat \<Rightarrow> libscols_buffer" where
  "scratch_buffer n = \<lparr>bufsz = n, buf_data = [], art_idx = 0\<rparr>"

text \<open>A table with groups whose lane array has two chunks of three slots: the group of
  chunk 0 is in the last-member state, chunk 1 holds NULL slots only.\<close>

definition lane_table :: libscols_table where
  "lane_table =
     (plain_table [(plain_column 0 10)\<lparr>fl_tree := True, cl_is_groups := True\<rparr>] [])
       \<lparr>tb_has_groups := True,
        grpset := [Some SCOLS_GSTATE_LAST_MEMBER, Some SCOLS_GSTATE_LAST_MEMBER,
                   Some SCOLS_GSTATE_LAST_MEMBER, None, None, None]\<rparr>"

text \<open>A table with one tree column, and lines of a tree: a root, its first child (not
  the last one), and a last child of that child.\<close>

definition tree_table :: libscols_table where
  "tree_table = (plain_table [(plain_column 0 10)\<lparr>fl_tree := True\<rparr>] [])\<lparr>tb_is_tree := True\<rparr>"

definition tree_root :: libscols_line where
  "tree_root = Line [text_cell ''r''] None None False True"

definition tree_child :: libscols_line where
  "tree_child = Line [text_cell ''x''] None (Some tree_root) False True"

definition tree_grandchild :: libscols_line where
  "tree_grandchild = Line [text_cell ''c''] None (Some tree_child) True False"

text \<open>A table with one wrapping column of width 2 and one line whose text needs a second
  output line; the allocator grants the first request and refuses the second.\<close>

definition wrap_line :: libscols_line where
  "wrap_line = root_line [text_cell ''abcd'']"

definition wrap_table :: libscols_table where
  "wrap_table =
     (plain_table [(plain_column 0 2)\<lparr>fl_wrap := True\<rparr>] [wrap_line])\<lparr>tb_heap := [True, False]\<rparr>"

text \<open>A table with wrapping columns of width 2 and 3, and a line whose first cell holds a
  malformed sequence behind the first two bytes; \<open>bad_pending\<close> is the table once the
  regular line of that row has been printed.\<close>

definition bad_line :: libscols_line where
  "bad_line = root_line [text_cell [CHR ''a'', CHR ''b'', CHR 0xFF, CHR ''c''], text_cell ''wxyz'']"

definition bad_table :: libscols_table where
  "bad_table =
     plain_table [(plain_column 0 2)\<lparr>fl_wrap := True\<rparr>, (plain_column 1 3)\<lparr>fl_wrap := True\<rparr>]
       [bad_line]"

definition bad_pending :: libscols_table where
  "bad_pending =
     (plain_table
        [(plain_column 0 2)\<lparr>fl_wrap := True,
            pending_data_buf := Some [CHR ''a'', CHR ''b'', CHR 0xFF, CHR ''c''],
            pending_data := Some 0, pending_data_sz := 4\<rparr>,
         (plain_column 1 3)\<lparr>fl_wrap := True, pending_data_buf := Some ''wxyz'',
            pending_data := Some 3, pending_data_sz := 1\<rparr>] [bad_line])\<lparr>tb_out := ''   wxy''\<rparr>"

text \<open>A table with one plain column of width 5, a line with a short text, and the scratch
  buffer holding that text.\<close>

definition short_line :: libscols_line where
  "short_line = root_line [text_cell ''ab'']"

definition short_table :: libscols_table where
  "short_table = plain_table [plain_column 0 5] [short_line]"

definition short_buffer :: libscols_buffer where
  "short_buffer = \<lparr>bufsz = 20, buf_data = ''ab'', art_idx = 0\<rparr>"





text \<open>The scratch buffer holding the first cell of \<open>bad_line\<close>.\<close>

definition bad_buffer :: libscols_buffer where
  "bad_buffer = \<lparr>bufsz = 20, buf_data = [CHR ''a'', CHR ''b'', CHR 0xFF, CHR ''c''], art_idx = 0\<rparr>"









subsection \<open>Notions of the statements\<close>

text \<open>The number of ancestors of a line.\<close>

fun ancestors :: "libscols_line \<Rightarrow> nat" where
  "ancestors (Line cells col None lastc ch) = 0"
| "ancestors (Line cells col (Some p) lastc ch) = Suc (ancestors p)"

text \<open>Neither the line nor one of its ancestors is the last child of its parent (the
  root of the chain has no parent and is not asked).\<close>

fun no_last_child :: "libscols_line \<Rightarrow> bool" where
  "no_last_child (Line cells col None lastc ch) = True"
| "no_last_child (Line cells col (Some p) lastc ch) = (\<not> lastc \<and> no_last_child p)"

text \<open>None of the ancestors of the line is the last child of its parent.\<close>

definition no_last_child_ancestor :: "libscols_line \<Rightarrow> bool" where
  "no_last_child_ancestor ln = (case ln_parent ln of None \<Rightarrow> True | Some p \<Rightarrow> no_last_child p)"

text \<open>The text of the cell of a line in the column with sequence index \<open>n\<close> (empty when
  the cell or its text is absent).\<close>

definition cell_text :: "libscols_line \<Rightarrow> nat \<Rightarrow> string" where
  "cell_text ln n =
     (case scols_line_get_cell ln n of
        None \<Rightarrow> []
      | Some ce \<Rightarrow> (case scols_cell_get_data ce of None \<Rightarrow> [] | Some d \<Rightarrow> d))"

text \<open>The column without its pending data: what stays of a column while a row is
  printed.\<close>

definition clear_pending :: "libscols_column \<Rightarrow> libscols_column" where
  "clear_pending cl = cl\<lparr>pending_data_buf := None, pending_data := None, pending_data_sz := 0\<rparr>"

text \<open>Two tables that differ at most in the bytes written, the allocator and the pending
  data of their columns.\<close>

definition same_layout :: "libscols_table \<Rightarrow> libscols_table \<Rightarrow> bool" where
  "same_layout tb tb' =
     (tb'\<lparr>tb_out := tb_out tb, tb_heap := tb_heap tb, tb_columns := tb_columns tb\<rparr> = tb
      \<and> map clear_pending (tb_columns tb') = map clear_pending (tb_columns tb))"

text \<open>None of the visible columns after position \<open>i\<close> is a tree column.\<close>

definition no_tree_column_after :: "libscols_table \<Rightarrow> nat \<Rightarrow> bool" where
  "no_tree_column_after tb i =
     list_all (\<lambda>cl. scols_column_is_hidden cl \<or> \<not> scols_column_is_tree cl)
       (drop (Suc i) (tb_columns tb))"

text \<open>Every visible column after position \<open>i\<close> has an empty cell on the line.\<close>

definition remaining_columns_empty :: "libscols_table \<Rightarrow> nat \<Rightarrow> libscols_line \<Rightarrow> bool" where
  "remaining_columns_empty tb i ln =
     list_all (\<lambda>cl. scols_column_is_hidden cl \<or> cell_text ln (cl_seqnum cl) = [])
       (drop (Suc i) (tb_columns tb))"

text \<open>The fill decision of the three cell printers, spelled out: no fill when min-out
  is active and the cell is in the last visible column or a row is printed whose
  remaining visible columns are no tree columns and have empty cells; no fill either in
  the last visible column when max-out is not active.\<close>

definition fill_skipped :: "libscols_table \<Rightarrow> nat \<Rightarrow> libscols_line option \<Rightarrow> bool" where
  "fill_skipped tb i ln =
     ((scols_table_is_minout tb
       \<and> (is_last_column tb i
          \<or> (case ln of
                None \<Rightarrow> False
              | Some l \<Rightarrow> no_tree_column_after tb i \<and> remaining_columns_empty tb i l)))
      \<or> (\<not> scols_table_is_maxout tb \<and> is_last_column tb i))"

text \<open>The bytes of the fill after a cell of width \<open>len\<close>: nothing when the fill is skipped,
  else the padding out to the column width and the column separator, unless the column
  is the last visible one.\<close>

definition fill_bytes :: "libscols_table \<Rightarrow> nat \<Rightarrow> libscols_line option \<Rightarrow> nat \<Rightarrow> string" where
  "fill_bytes tb i ln len =
     (if fill_skipped tb i ln then []
      else concat (replicate (cl_width (tb_columns tb ! i) - len) (cellpadding_symbol tb))
           @ (if is_last_column tb i then [] else tb_colsep tb))"













text \<open>Two tables that differ at most in the bytes written, the allocator, the pending
  data of their columns and the count of the lines written.\<close>

definition same_row :: "libscols_table \<Rightarrow> libscols_table \<Rightarrow> bool" where
  "same_row T tb = same_layout T (tb\<lparr>termlines_used := termlines_used T\<rparr>)"


text \<open>The bytes written for the text \<open>d\<close> of a cell on the first line of a row: behind
  its padding in a right-aligned column, between its colour sequences if it has a colour,
  the art of a tree column in front of them.\<close>

definition text_bytes ::
  "extern \<Rightarrow> libscols_table \<Rightarrow> libscols_column \<Rightarrow> string option \<Rightarrow> nat \<Rightarrow> string \<Rightarrow> string" where
  "text_bytes x tb cl color art d =
     (if d = [] then []
      else if scols_column_is_right cl
      then (case color of None \<Rightarrow> [] | Some c \<Rightarrow> c)
           @ concat (replicate (cl_width cl - length d) (cellpadding_symbol tb)) @ d
           @ (case color of None \<Rightarrow> [] | Some c \<Rightarrow> UL_COLOR_RESET x)
      else (case color of
              None \<Rightarrow> d
            | Some c \<Rightarrow>
                if scols_column_is_tree cl \<and> art \<noteq> 0 \<and> art < length d
                then take art d @ c @ drop art d @ UL_COLOR_RESET x
                else c @ d @ UL_COLOR_RESET x))"







subsection \<open>The wording of the specification\<close>


text \<open>The tree art of the specification for a line with \<open>N\<close> ancestors: \<open>N\<close> copies of the
  vertical-continuation glyph.\<close>

definition spec_tree_art :: "libscols_table \<Rightarrow> libscols_line \<Rightarrow> string" where
  "spec_tree_art tb ln = concat (replicate (ancestors ln) (vertical_symbol tb))"

text \<open>The group art of the specification for a last member followed by a chunk of null
  slots: the last-member glyph, then one filler glyph.\<close>

definition spec_last_member_art :: "libscols_table \<Rightarrow> string" where
  "spec_last_member_art tb = grp_m_last_symbol tb @ cellpadding_symbol tb"

text \<open>The boolean of the specification: false for the empty string, the string \<open>"0"\<close> and
  a text that begins with \<open>N\<close> or \<open>n\<close>.\<close>

definition spec_json_false :: "string \<Rightarrow> bool" where
  "spec_json_false d =
     (d = [] \<or> d = ''0'' \<or> take 1 d = ''N'' \<or> take 1 d = ''n'')"


section \<open>Properties\<close>

subsection \<open>The scratch buffer\<close>

lemma buffer_append_data_fits:
  "length (buf_data b) + length s < bufsz b \<Longrightarrow>
   buffer_append_data b s = (0, b\<lparr>buf_data := buf_data b @ s\<rparr>)"
  by (auto simp: buffer_append_data_def)

lemma buffer_append_ntimes_fits:
  "length (buf_data b) + n * length s < bufsz b \<Longrightarrow>
   buffer_append_ntimes b n s = (0, b\<lparr>buf_data := buf_data b @ concat (replicate n s)\<rparr>)"
proof (induction n arbitrary: b)
  case 0
  then show ?case by simp
next
  case (Suc n)
  then show ?case by (simp add: buffer_append_data_fits)
qed

lemma concat_replicate_snoc:
  "concat (replicate n v) @ v = concat (replicate (Suc n) v)"
  by (induction n) simp_all

subsection \<open>JSON booleans\<close>

lemma json_boolean_first: "json_boolean d = (take 1 d \<notin> {[], ''0'', ''N'', ''n''})"
  by (cases d) (auto simp: json_boolean_def)

text \<open>C5, as stated, fails: the value written for the data \<open>"01"\<close> is false, although
  \<open>"01"\<close> is neither empty, nor the string \<open>"0"\<close>, nor does it begin with \<open>N\<close> or \<open>n\<close>. The
  source tests the first byte only.\<close>

theorem C5_counterexample:
  "print_json_data ((plain_column 0 5)\<lparr>cl_json_type := SCOLS_JSON_BOOLEAN\<rparr>) (Some ''ro'') ''01'' True
     = Some [Jvalue_boolean (Some ''ro'') False True]
   \<and> \<not> spec_json_false ''01''"
  by (simp add: print_json_data_def plain_column_def json_boolean_def spec_json_false_def)

text \<open>C5 (amended): for every JSON boolean column the value written is false exactly
  when the data is empty or its first byte is \<open>0\<close>, \<open>N\<close> or \<open>n\<close>; for every other data it is
  true.\<close>

theorem C5_json_boolean:
  assumes "cl_json_type cl = SCOLS_JSON_BOOLEAN"
  shows "print_json_data cl name d is_last
           = Some [Jvalue_boolean name (take 1 d \<notin> {[], ''0'', ''N'', ''n''}) is_last]"
  using assms by (simp add: print_json_data_def json_boolean_first)

theorem C5_json_boolean_witness:
  "cl_json_type ((plain_column 0 5)\<lparr>cl_json_type := SCOLS_JSON_BOOLEAN\<rparr>) = SCOLS_JSON_BOOLEAN
   \<and> print_json_data ((plain_column 0 5)\<lparr>cl_json_type := SCOLS_JSON_BOOLEAN\<rparr>) (Some ''ro'') ''no'' False
       = Some [Jvalue_boolean (Some ''ro'') False False]
   \<and> print_json_data ((plain_column 0 5)\<lparr>cl_json_type := SCOLS_JSON_BOOLEAN\<rparr>) (Some ''ro'') ''1'' False
       = Some [Jvalue_boolean (Some ''ro'') True False]"
  using C5_json_boolean [of "(plain_column 0 5)\<lparr>cl_json_type := SCOLS_JSON_BOOLEAN\<rparr>" "Some ''ro''" "''no''" False]
        C5_json_boolean [of "(plain_column 0 5)\<lparr>cl_json_type := SCOLS_JSON_BOOLEAN\<rparr>" "Some ''ro''" "''1''" False]
  by (simp add: plain_column_def)

subsection \<open>The pending-data cursor\<close>

text \<open>C6: for a column with pending data (cursor at offset \<open>p\<close> of the owned buffer \<open>B\<close>,
  remaining length \<open>L\<close>), \<^verbatim>\<open>step_pending_data\<close> with \<open>k\<close> consumed bytes returns 0 and
  allocates nothing; if \<open>k \<ge> L\<close> the cursor becomes empty (buffer freed, cursor NULL, length
  0); otherwise the cursor advances by exactly \<open>k\<close> bytes inside the same buffer \<open>B\<close>, the
  remaining length becomes \<open>L - k\<close>, and the text the cursor reads is the old text without
  its first \<open>k\<close> bytes.\<close>

theorem C6_step_pending_data:
  assumes "pending_data_buf cl = Some B" and "pending_data cl = Some p"
    and "pending_data_sz cl = L"
    and "step_pending_data h cl k = (rc, cl', h')"
  shows "rc = 0 \<and> h' = h
         \<and> (if k \<ge> L
            then pending_data cl' = None \<and> pending_data_buf cl' = None \<and> pending_data_sz cl' = 0
            else pending_data cl' = Some (p + k) \<and> pending_data_buf cl' = Some B
                 \<and> pending_data_sz cl' = L - k
                 \<and> pending_text cl' = drop k (pending_text cl))"
  using assms
  by (auto simp: step_pending_data_def set_pending_data_def pending_text_def add.commute
           split: if_splits)

theorem C6_step_pending_data_witness:
  "step_pending_data []
     ((plain_column 0 2)\<lparr>pending_data_buf := Some ''abcdef'', pending_data := Some 2,
                         pending_data_sz := 4\<rparr>) 2
     = (0, (plain_column 0 2)\<lparr>pending_data_buf := Some ''abcdef'', pending_data := Some 4,
                              pending_data_sz := 2\<rparr>, [])
   \<and> pending_text ((plain_column 0 2)\<lparr>pending_data_buf := Some ''abcdef'', pending_data := Some 4,
                                      pending_data_sz := 2\<rparr>) = ''ef''
   \<and> step_pending_data []
       ((plain_column 0 2)\<lparr>pending_data_buf := Some ''abcdef'', pending_data := Some 4,
                           pending_data_sz := 2\<rparr>) 2
       = (0, plain_column 0 2, [])"
  using C6_step_pending_data [of "(plain_column 0 2)\<lparr>pending_data_buf := Some ''abcdef'',
           pending_data := Some 2, pending_data_sz := 4\<rparr>" "''abcdef''" 2 4 "[]" 2]
  by (simp add: step_pending_data_def set_pending_data_def pending_text_def plain_column_def)

subsection \<open>The header\<close>

text \<open>C10: printing the header returns 0 and changes nothing (no byte is written, the
  table and the buffer are as before) whenever the header was already printed and
  header-repeat is off, or the table is in no-headings mode, or the output format is
  export or JSON, or the table has no lines.\<close>

theorem C10_print_header_noop:
  assumes "(header_printed tb \<and> \<not> header_repeat tb) \<or> no_headings tb
           \<or> tb_format tb = SCOLS_FMT_EXPORT \<or> tb_format tb = SCOLS_FMT_JSON \<or> tb_lines tb = []"
  shows "scols_print_header x tb buf = Some (0, tb, buf)"
  using assms
  by (auto simp: scols_print_header_def scols_table_is_noheadings_def scols_table_is_export_def
        scols_table_is_json_def)

theorem C10_print_header_noop_witness:
  "tb_lines (plain_table [plain_column 0 3] []) = []
   \<and> scols_print_header ascii_services (plain_table [plain_column 0 3] []) (scratch_buffer 10)
       = Some (0, plain_table [plain_column 0 3] [], scratch_buffer 10)"
  using C10_print_header_noop [of "plain_table [plain_column 0 3] []" ascii_services "scratch_buffer 10"]
  by (simp add: plain_table_def)

subsection \<open>Group art\<close>

text \<open>C4, as stated, fails: for a lane array of two chunks, the first in the last-member
  state and the second NULL, the generator writes the last-member glyph, then a filler run
  of the chunk size for the NULL chunk, then the fallback filler: four filler glyphs for a
  chunk size of three, not the single one of the specification.\<close>

theorem C4_counterexample:
  "groups_ascii_art_to_buffer ascii_services lane_table (scratch_buffer 20)
     = Some (0, \<lparr>bufsz = 20, buf_data = [CHR 0x5C, CHR ''-'', CHR ''>''] @ ''    '', art_idx = 0\<rparr>)
   \<and> spec_last_member_art lane_table = [CHR 0x5C, CHR ''-'', CHR ''>''] @ '' ''"
  by (simp add: groups_ascii_art_to_buffer_def groups_art_loop.simps groups_art_state_def
        lane_table_def plain_table_def ascii_services_def scratch_buffer_def
        buffer_append_data_def grp_m_last_symbol_def cellpadding_symbol_def sym_def
        no_symbols_def spec_last_member_art_def EINVAL_def numeral_3_eq_3)

text \<open>C4 (amended): for every table with groups whose lane array has size 2 \<times> chunk-size,
  where the group at chunk 0 is in the last-member state and chunk 1 starts with a NULL
  slot, the group-art generator returns 0; in a dummy print it emits nothing, and
  otherwise (given room in the buffer) it emits exactly the last-member glyph, then a run
  of chunk-size filler glyphs for the NULL chunk, then the single fallback filler
  glyph.\<close>

theorem C4_groups_last_member:
  assumes chunk: "0 < SCOLS_GRPSET_CHUNKSIZ x"
    and size: "length (grpset tb) = 2 * SCOLS_GRPSET_CHUNKSIZ x"
    and first: "grpset tb ! 0 = Some SCOLS_GSTATE_LAST_MEMBER"
    and second: "grpset tb ! SCOLS_GRPSET_CHUNKSIZ x = None"
    and groups: "tb_has_groups tb"
    and room: "length (buf_data buf) + length (grp_m_last_symbol tb)
               + (SCOLS_GRPSET_CHUNKSIZ x + 1) * length (cellpadding_symbol tb) < bufsz buf"
  shows "groups_ascii_art_to_buffer x tb buf
         = Some (0, if is_dummy_print tb then buf
                    else buf\<lparr>buf_data := buf_data buf @ grp_m_last_symbol tb
                           @ concat (replicate (SCOLS_GRPSET_CHUNKSIZ x) (cellpadding_symbol tb))
                           @ cellpadding_symbol tb\<rparr>)"
proof (cases "is_dummy_print tb")
  case True
  then show ?thesis
    using groups by (simp add: groups_ascii_art_to_buffer_def)
next
  case False
  let ?c = "SCOLS_GRPSET_CHUNKSIZ x"
  let ?ga0 = "\<lparr>ga_buf = buf, ga_filled = False, ga_rest = 0, ga_filler = cellpadding_symbol tb\<rparr>"
  let ?b1 = "buf\<lparr>buf_data := buf_data buf @ grp_m_last_symbol tb\<rparr>"
  let ?b2 = "?b1\<lparr>buf_data := buf_data ?b1 @ concat (replicate ?c (cellpadding_symbol tb))\<rparr>"
  have a1: "buffer_append_data buf (grp_m_last_symbol tb) = (0, ?b1)"
    using room by (intro buffer_append_data_fits) simp
  have a2: "buffer_append_ntimes ?b1 ?c (cellpadding_symbol tb) = (0, ?b2)"
    using room by (intro buffer_append_ntimes_fits) simp
  have a3: "buffer_append_data ?b2 (cellpadding_symbol tb)
            = (0, ?b2\<lparr>buf_data := buf_data ?b2 @ cellpadding_symbol tb\<rparr>)"
    using room by (intro buffer_append_data_fits) (simp add: length_concat sum_list_replicate)
  have l3: "groups_art_loop x tb (?c + ?c) (?ga0\<lparr>ga_buf := ?b2\<rparr>) = Some (?ga0\<lparr>ga_buf := ?b2\<rparr>)"
    using size by (subst groups_art_loop.simps) simp
  have l2: "groups_art_loop x tb ?c (?ga0\<lparr>ga_buf := ?b1\<rparr>) = Some (?ga0\<lparr>ga_buf := ?b2\<rparr>)"
    using size chunk second a2 l3 by (subst groups_art_loop.simps) simp
  have l1: "groups_art_loop x tb 0 ?ga0 = Some (?ga0\<lparr>ga_buf := ?b2\<rparr>)"
    using size chunk first a1 l2 by (subst groups_art_loop.simps) (simp add: groups_art_state_def)
  show ?thesis
    using groups False l1 a3 by (simp add: groups_ascii_art_to_buffer_def)
qed

theorem C4_groups_last_member_witness:
  "0 < SCOLS_GRPSET_CHUNKSIZ ascii_services
   \<and> length (grpset lane_table) = 2 * SCOLS_GRPSET_CHUNKSIZ ascii_services
   \<and> grpset lane_table ! 0 = Some SCOLS_GSTATE_LAST_MEMBER
   \<and> grpset lane_table ! SCOLS_GRPSET_CHUNKSIZ ascii_services = None
   \<and> tb_has_groups lane_table \<and> \<not> is_dummy_print lane_table
   \<and> length (buf_data (scratch_buffer 20)) + length (grp_m_last_symbol lane_table)
         + (SCOLS_GRPSET_CHUNKSIZ ascii_services + 1) * length (cellpadding_symbol lane_table)
       < bufsz (scratch_buffer 20)
   \<and> groups_ascii_art_to_buffer ascii_services lane_table (scratch_buffer 20)
       = Some (0, \<lparr>bufsz = 20, buf_data = [CHR 0x5C, CHR ''-'', CHR ''>''] @ ''   '' @ '' '',
                   art_idx = 0\<rparr>)"
  using C4_groups_last_member [of ascii_services lane_table "scratch_buffer 20"]
  by (simp add: lane_table_def plain_table_def ascii_services_def scratch_buffer_def
        grp_m_last_symbol_def cellpadding_symbol_def sym_def no_symbols_def numeral_3_eq_3)

subsection \<open>Tree art\<close>

lemma tree_art_no_last_child:
  "no_last_child p \<Longrightarrow>
   length (buf_data buf) + ancestors p * length (vertical_symbol tb) < bufsz buf \<Longrightarrow>
   tree_ascii_art_to_buffer tb p buf
     = (0, buf\<lparr>buf_data := buf_data buf @ concat (replicate (ancestors p) (vertical_symbol tb))\<rparr>)"
proof (induction tb p buf rule: tree_ascii_art_to_buffer.induct)
  case (1 tb cells col lastc ch buf)
  then show ?case by simp
next
  case (2 tb cells col p lastc ch buf)
  let ?v = "vertical_symbol tb"
  let ?b = "buf\<lparr>buf_data := buf_data buf @ concat (replicate (ancestors p) ?v)\<rparr>"
  have ih: "tree_ascii_art_to_buffer tb p buf = (0, ?b)"
    using 2 by simp
  have "buffer_append_data ?b ?v = (0, ?b\<lparr>buf_data := buf_data ?b @ ?v\<rparr>)"
    using "2.prems" by (intro buffer_append_data_fits) (simp add: length_concat sum_list_replicate)
  then have "buffer_append_data ?b ?v
             = (0, buf\<lparr>buf_data := buf_data buf @ concat (replicate (Suc (ancestors p)) ?v)\<rparr>)"
    by (simp add: concat_replicate_snoc del: replicate.simps)
  then show ?case
    using ih "2.prems" by (simp del: replicate.simps)
qed

lemma cell_to_buffer_tree:
  assumes "scols_column_is_tree (tb_columns tb ! i)"
    and "\<not> cl_is_groups (tb_columns tb ! i)"
    and "\<not> scols_table_is_json tb"
    and "ln_parent ln = Some p"
    and "tree_ascii_art_to_buffer tb p (buffer_reset_data buf) = (0, b1)"
    and "buffer_append_data b1 (if ln_last_child ln then right_symbol tb else branch_symbol tb)
         = (0, b2)"
  shows "cell_to_buffer x tb ln i buf
         = (case (case scols_line_get_cell ln (cl_seqnum (tb_columns tb ! i)) of
                    None \<Rightarrow> None | Some ce \<Rightarrow> scols_cell_get_data ce) of
              None \<Rightarrow> Some (0, buffer_set_art_index b2)
            | Some t \<Rightarrow> Some (buffer_append_data (buffer_set_art_index b2) t))"
proof (cases "ln_last_child ln")
  case True
  then show ?thesis
    using assms by (simp add: cell_to_buffer_def Let_def split: option.splits)
next
  case False
  then show ?thesis
    using assms by (simp add: cell_to_buffer_def Let_def split: option.splits)
qed

text \<open>C3, as stated, fails: the first child of a root has one ancestor, which is no last
  child, and the decoration prepended to its cell is the branch glyph \<open>|-\<close>, not one
  vertical-continuation glyph \<open>| \<close>.\<close>

theorem C3_counterexample:
  "cell_to_buffer ascii_services tree_table tree_child 0 (scratch_buffer 20)
     = Some (0, \<lparr>bufsz = 20, buf_data = ''|-'' @ ''x'', art_idx = 2\<rparr>)
   \<and> ancestors tree_child = 1 \<and> no_last_child_ancestor tree_child
   \<and> spec_tree_art tree_table tree_child = ''| ''"
  by (simp add: cell_to_buffer_def tree_table_def tree_child_def tree_root_def plain_table_def
        plain_column_def text_cell_def scratch_buffer_def scols_column_is_tree_def
        scols_table_is_json_def scols_line_get_cell_def scols_cell_get_data_def
        buffer_reset_data_def buffer_append_data_def buffer_set_art_index_def branch_symbol_def
        sym_def no_symbols_def spec_tree_art_def vertical_symbol_def EINVAL_def
        no_last_child_ancestor_def)

text \<open>C3 (amended): for every row that has \<open>N \<ge> 1\<close> ancestors, none of which is a last
  child of its parent, in a format other than JSON and a tree column without group lanes
  (and with room in the scratch buffer), the decoration prepended to the row's tree-column
  cell is exactly \<open>N - 1\<close> copies of the vertical-continuation glyph followed by the corner
  glyph when the row is the last child of its parent and by the branch glyph otherwise,
  independent of the row's cell text, which follows it.\<close>

theorem C3_tree_art:
  assumes tree: "scols_column_is_tree (tb_columns tb ! i)"
    and nogroups: "\<not> cl_is_groups (tb_columns tb ! i)"
    and nojson: "\<not> scols_table_is_json tb"
    and parent: "ln_parent ln = Some p"
    and nolast: "no_last_child_ancestor ln"
    and room: "ancestors ln * length (vertical_symbol tb) + length (right_symbol tb)
               + length (branch_symbol tb)
               + length (cell_text ln (cl_seqnum (tb_columns tb ! i))) < bufsz buf"
  shows "cell_to_buffer x tb ln i buf
         = Some (0, \<lparr>bufsz = bufsz buf,
                    buf_data = concat (replicate (ancestors ln - 1) (vertical_symbol tb))
                               @ (if ln_last_child ln then right_symbol tb else branch_symbol tb)
                               @ cell_text ln (cl_seqnum (tb_columns tb ! i)),
                    art_idx = length (concat (replicate (ancestors ln - 1) (vertical_symbol tb))
                               @ (if ln_last_child ln then right_symbol tb else branch_symbol tb))\<rparr>)"
proof -
  define V where "V = concat (replicate (ancestors p) (vertical_symbol tb))"
  define g where "g = (if ln_last_child ln then right_symbol tb else branch_symbol tb)"
  define t where "t = cell_text ln (cl_seqnum (tb_columns tb ! i))"
  let ?d = "case scols_line_get_cell ln (cl_seqnum (tb_columns tb ! i)) of
              None \<Rightarrow> None | Some ce \<Rightarrow> scols_cell_get_data ce"
  let ?b0 = "\<lparr>bufsz = bufsz buf, buf_data = [], art_idx = 0\<rparr>"
  let ?b1 = "\<lparr>bufsz = bufsz buf, buf_data = V, art_idx = 0\<rparr>"
  let ?b2 = "\<lparr>bufsz = bufsz buf, buf_data = V @ g, art_idx = 0\<rparr>"
  let ?b3 = "\<lparr>bufsz = bufsz buf, buf_data = V @ g, art_idx = length (V @ g)\<rparr>"
  let ?b4 = "\<lparr>bufsz = bufsz buf, buf_data = V @ g @ t, art_idx = length (V @ g)\<rparr>"
  have anc: "ancestors ln = Suc (ancestors p)"
    using parent by (cases ln) simp
  have nl: "no_last_child p"
    using nolast parent by (simp add: no_last_child_ancestor_def)
  have lenV: "length V = ancestors p * length (vertical_symbol tb)"
    by (simp add: V_def length_concat sum_list_replicate)
  have leng: "length g \<le> length (right_symbol tb) + length (branch_symbol tb)"
    by (simp add: g_def)
  have r0: "buffer_reset_data buf = ?b0"
    by (simp add: buffer_reset_data_def)
  have t1: "tree_ascii_art_to_buffer tb p (buffer_reset_data buf) = (0, ?b1)"
    using tree_art_no_last_child [OF nl, of ?b0 tb] room anc by (simp add: r0 V_def)
  have t2: "buffer_append_data ?b1 g = (0, ?b2)"
    using room anc lenV leng buffer_append_data_fits [of ?b1 g] by simp
  have t3: "buffer_set_art_index ?b2 = ?b3"
    by (simp add: buffer_set_art_index_def)
  have t4: "buffer_append_data ?b3 t = (0, ?b4)"
    using room anc lenV leng buffer_append_data_fits [of ?b3 t] by (simp add: t_def)
  have fin: "(case ?d of None \<Rightarrow> Some (0, ?b3) | Some t \<Rightarrow> Some (buffer_append_data ?b3 t))
             = Some (0, ?b4)"
  proof (cases ?d)
    case None
    then have "t = []" by (auto simp: t_def cell_text_def split: option.splits)
    then show ?thesis using None by simp
  next
    case (Some d)
    then have "t = d" by (auto simp: t_def cell_text_def split: option.splits)
    then show ?thesis using Some t4 by simp
  qed
  have "cell_to_buffer x tb ln i buf = Some (0, ?b4)"
    using cell_to_buffer_tree [OF tree nogroups nojson parent t1 t2 [unfolded g_def], of x]
    by (simp only: t3 [unfolded g_def] fin [unfolded g_def] g_def)
  then show ?thesis
    by (simp add: anc V_def g_def t_def)
qed

theorem C3_tree_art_witness:
  "scols_column_is_tree (tb_columns tree_table ! 0)
   \<and> \<not> cl_is_groups (tb_columns tree_table ! 0)
   \<and> \<not> scols_table_is_json tree_table
   \<and> ln_parent tree_grandchild = Some tree_child
   \<and> no_last_child_ancestor tree_grandchild
   \<and> ancestors tree_grandchild = 2
   \<and> cell_to_buffer ascii_services tree_table tree_grandchild 0 (scratch_buffer 20)
       = Some (0, \<lparr>bufsz = 20, buf_data = ''| '' @ ''`-'' @ ''c'', art_idx = 4\<rparr>)"
  using C3_tree_art [of tree_table 0 tree_grandchild tree_child "scratch_buffer 20" ascii_services]
  by (simp add: tree_table_def tree_grandchild_def tree_child_def tree_root_def plain_table_def
        plain_column_def text_cell_def scratch_buffer_def scols_column_is_tree_def
        scols_table_is_json_def no_last_child_ancestor_def cell_text_def
        scols_line_get_cell_def scols_cell_get_data_def vertical_symbol_def right_symbol_def
        branch_symbol_def sym_def no_symbols_def)

subsection \<open>Return codes\<close>

lemma print_line_returns_0:
  "print_line x fuel tb ln buf = Some (rc, tb', buf') \<Longrightarrow> rc = 0"
  by (auto simp: print_line_def split: option.splits)

text \<open>C1 does not hold of the code: \<^verbatim>\<open>print_line\<close> ends with \<^verbatim>\<open>return 0\<close>, so the code
  its loops stopped with is lost. On \<open>wrap_table\<close> the copy of the pending data for the
  second output line cannot be allocated: \<^verbatim>\<open>print_pending_data\<close> returns \<^verbatim>\<open>-ENOMEM\<close>, the
  loop of the extra lines stops with that code, and \<^verbatim>\<open>print_line\<close>, the range walker and
  the tree walker's callback all return 0, the rest of the cell unprinted.\<close>

theorem C1_error_code_lost:
  "map_option ls_rc
     (Option.bind
        (print_line_regular ascii_services wrap_line [0]
           \<lparr>ls_rc = 0, ls_pending = False, ls_tb = wrap_table, ls_buf = scratch_buffer 20\<rparr>)
        (print_line_extra ascii_services 5 wrap_line)) = Some (- ENOMEM)
   \<and> map_option (\<lambda>r. (fst r, tb_out (fst (snd r))))
        (print_line ascii_services 5 wrap_table wrap_line (scratch_buffer 20))
       = Some (0, [CHR ''a'', CHR ''b'', CHR 0x0A])
   \<and> map_option fst (scols_print_range ascii_services 5 wrap_table (scratch_buffer 20) 0 None)
       = Some 0
   \<and> map_option fst (print_tree_line ascii_services 5 wrap_table wrap_line (scratch_buffer 20))
       = Some 0"
  by code_simp

subsection \<open>Tables of the same layout\<close>

lemma same_layout_refl [simp]: "same_layout tb tb"
  by (simp add: same_layout_def)

lemma same_layout_rest:
  "same_layout tb tb' \<Longrightarrow>
   tb'\<lparr>tb_out := tb_out tb, tb_heap := tb_heap tb, tb_columns := tb_columns tb\<rparr> = tb"
  by (simp add: same_layout_def)

lemma same_layout_map:
  "same_layout tb tb' \<Longrightarrow> map clear_pending (tb_columns tb') = map clear_pending (tb_columns tb)"
  by (simp add: same_layout_def)

lemma same_layout_trans:
  assumes ab: "same_layout a b" and bc: "same_layout b c"
  shows "same_layout a c"
proof -
  have "c\<lparr>tb_out := tb_out a, tb_heap := tb_heap a, tb_columns := tb_columns a\<rparr>
        = (c\<lparr>tb_out := tb_out b, tb_heap := tb_heap b, tb_columns := tb_columns b\<rparr>)
            \<lparr>tb_out := tb_out a, tb_heap := tb_heap a, tb_columns := tb_columns a\<rparr>"
    by simp
  also have "\<dots> = b\<lparr>tb_out := tb_out a, tb_heap := tb_heap a, tb_columns := tb_columns a\<rparr>"
    by (simp only: same_layout_rest [OF bc])
  also have "\<dots> = a"
    by (rule same_layout_rest [OF ab])
  finally show ?thesis
    using same_layout_map [OF ab] same_layout_map [OF bc] by (simp add: same_layout_def)
qed

lemma same_layout_fputs [simp]: "same_layout tb (fputs s tb') = same_layout tb tb'"
  by (simp add: same_layout_def fputs_def)

lemma same_layout_heap [simp]: "same_layout tb (tb'\<lparr>tb_heap := h\<rparr>) = same_layout tb tb'"
  by (simp add: same_layout_def)

lemma same_layout_fill_padding [simp]:
  "same_layout tb (fill_padding a b tb') = same_layout tb tb'"
  by (simp add: fill_padding_def)

lemma map_update_same:
  "i < length xs \<Longrightarrow> f y = f (xs ! i) \<Longrightarrow> map f (xs[i := y]) = map f xs"
  by (simp add: list_eq_iff_nth_eq nth_list_update)

lemma same_layout_put_column:
  "i < length (tb_columns tb') \<Longrightarrow> clear_pending cl = clear_pending (tb_columns tb' ! i) \<Longrightarrow>
   same_layout tb (put_column tb' i (cl, h)) = same_layout tb tb'"
  by (simp add: same_layout_def put_column_def map_update_same)

lemma same_layout_length: "same_layout tb tb' \<Longrightarrow> length (tb_columns tb') = length (tb_columns tb)"
  by (auto simp: same_layout_def dest: map_eq_imp_length_eq)

lemma same_layout_column:
  assumes "same_layout tb tb'" and "i < length (tb_columns tb)"
  shows "clear_pending (tb_columns tb' ! i) = clear_pending (tb_columns tb ! i)"
proof -
  have "map clear_pending (tb_columns tb') ! i = map clear_pending (tb_columns tb) ! i"
    using assms by (simp add: same_layout_def)
  then show ?thesis
    using assms same_layout_length [OF assms(1)] by simp
qed

lemma clear_pending_fields:
  assumes "clear_pending a = clear_pending b"
  shows "cl_width a = cl_width b" and "cl_seqnum a = cl_seqnum b" and "fl_hidden a = fl_hidden b"
    and "fl_tree a = fl_tree b" and "fl_trunc a = fl_trunc b" and "fl_wrap a = fl_wrap b"
    and "fl_right a = fl_right b" and "cl_color a = cl_color b"
    and "wrap_nextchunk a = wrap_nextchunk b" and "cl_safechars a = cl_safechars b"
  using arg_cong [OF assms, of cl_width] arg_cong [OF assms, of cl_seqnum]
    arg_cong [OF assms, of fl_hidden] arg_cong [OF assms, of fl_tree]
    arg_cong [OF assms, of fl_trunc] arg_cong [OF assms, of fl_wrap]
    arg_cong [OF assms, of fl_right] arg_cong [OF assms, of cl_color]
    arg_cong [OF assms, of wrap_nextchunk] arg_cong [OF assms, of cl_safechars]
  by (simp_all add: clear_pending_def)

lemma same_layout_config:
  assumes "same_layout tb tb'"
  shows "minout tb' = minout tb" and "maxout tb' = maxout tb" and "tb_colsep tb' = tb_colsep tb"
    and "tb_linesep tb' = tb_linesep tb" and "cellpadding_symbol tb' = cellpadding_symbol tb"
    and "termlines_used tb' = termlines_used tb" and "no_encode tb' = no_encode tb"
    and "colors_wanted tb' = colors_wanted tb" and "tb_format tb' = tb_format tb"
  using arg_cong [OF same_layout_rest [OF assms], of minout]
    arg_cong [OF same_layout_rest [OF assms], of maxout]
    arg_cong [OF same_layout_rest [OF assms], of tb_colsep]
    arg_cong [OF same_layout_rest [OF assms], of tb_linesep]
    arg_cong [OF same_layout_rest [OF assms], of padding_debug]
    arg_cong [OF same_layout_rest [OF assms], of tb_symbols]
    arg_cong [OF same_layout_rest [OF assms], of termlines_used]
    arg_cong [OF same_layout_rest [OF assms], of no_encode]
    arg_cong [OF same_layout_rest [OF assms], of colors_wanted]
    arg_cong [OF same_layout_rest [OF assms], of tb_format]
  by (simp_all add: cellpadding_symbol_def)

lemma list_all_drop_map:
  "map f xs = map f ys \<Longrightarrow> list_all (\<lambda>c. P (f c)) (drop n xs) = list_all (\<lambda>c. P (f c)) (drop n ys)"
proof -
  assume "map f xs = map f ys"
  then have "map f (drop n xs) = map f (drop n ys)" by (simp add: drop_map [symmetric])
  then have "list_all P (map f (drop n xs)) = list_all P (map f (drop n ys))" by simp
  then show ?thesis by (simp add: list_all_iff)
qed

lemma same_layout_is_last_column:
  assumes "same_layout tb tb'"
  shows "is_last_column tb' i = is_last_column tb i"
proof -
  have m: "map clear_pending (tb_columns tb') = map clear_pending (tb_columns tb)"
    using assms by (simp add: same_layout_def)
  have "scols_column_is_hidden = (\<lambda>c. fl_hidden (clear_pending c))"
    by (auto simp: scols_column_is_hidden_def clear_pending_def)
  then show ?thesis
    using list_all_drop_map [OF m, of fl_hidden "Suc i"] by (simp add: is_last_column_def)
qed

lemma next_columns_loop_map:
  "map clear_pending xs = map clear_pending ys \<Longrightarrow> next_columns_loop xs ln = next_columns_loop ys ln"
proof (induction xs arbitrary: ys)
  case Nil
  then show ?case by simp
next
  case (Cons a xs)
  then obtain b ys' where ys: "ys = b # ys'" and ab: "clear_pending a = clear_pending b"
    and rest: "map clear_pending xs = map clear_pending ys'"
    by (cases ys) auto
  show ?case
    using Cons.IH [OF rest] clear_pending_fields [OF ab]
    by (simp add: ys scols_column_is_hidden_def scols_column_is_tree_def split: option.splits)
qed

lemma same_layout_is_next_columns_empty:
  assumes "same_layout tb tb'"
  shows "is_next_columns_empty tb' i ln = is_next_columns_empty tb i ln"
proof -
  have m: "map clear_pending (drop (Suc i) (tb_columns tb'))
           = map clear_pending (drop (Suc i) (tb_columns tb))"
    using assms by (simp add: same_layout_def drop_map [symmetric])
  show ?thesis
    using same_layout_is_last_column [OF assms, of i] next_columns_loop_map [OF m]
    by (simp add: is_next_columns_empty_def split: option.splits)
qed

lemma next_columns_loop_eq:
  "next_columns_loop cls ln
   = (list_all (\<lambda>cl. scols_column_is_hidden cl \<or> \<not> scols_column_is_tree cl) cls
      \<and> list_all (\<lambda>cl. scols_column_is_hidden cl \<or> cell_text ln (cl_seqnum cl) = []) cls)"
  by (induction cls) (auto simp: cell_text_def split: option.splits)

lemma is_last_column_imp:
  "is_last_column tb i \<Longrightarrow> no_tree_column_after tb i \<and> remaining_columns_empty tb i l"
  by (auto simp: is_last_column_def no_tree_column_after_def remaining_columns_empty_def
        list_all_iff)

lemma fill_decision:
  "((scols_table_is_minout tb \<and> is_next_columns_empty tb i ln)
    \<or> (\<not> scols_table_is_maxout tb \<and> is_last_column tb i)) = fill_skipped tb i ln"
  by (auto simp: fill_skipped_def is_next_columns_empty_def next_columns_loop_eq
        no_tree_column_after_def remaining_columns_empty_def split: option.splits)

lemma same_layout_fill_skipped:
  "same_layout tb tb' \<Longrightarrow> fill_skipped tb' i ln = fill_skipped tb i ln"
  using same_layout_is_last_column [of tb tb' i] same_layout_is_next_columns_empty [of tb tb' i ln]
    same_layout_config(1,2) [of tb tb']
  by (simp add: fill_decision [symmetric] scols_table_is_minout_def scols_table_is_maxout_def)

lemma set_pending_data_clear:
  "clear_pending (fst (snd (set_pending_data h cl d sz))) = clear_pending cl"
  by (simp add: set_pending_data_def clear_pending_def split: prod.splits bool.splits)

lemma step_pending_data_clear:
  "clear_pending (fst (snd (step_pending_data h cl b))) = clear_pending cl"
  by (simp add: step_pending_data_def set_pending_data_clear) (simp add: clear_pending_def)

subsection \<open>The fill\<close>

lemma set_pending_data_clear_eq:
  "set_pending_data h cl d sz = (rc, cl', h') \<Longrightarrow> clear_pending cl' = clear_pending cl"
  using set_pending_data_clear [of h cl d sz] by simp

lemma step_pending_data_clear_eq:
  "step_pending_data h cl b = (rc, cl', h') \<Longrightarrow> clear_pending cl' = clear_pending cl"
  using step_pending_data_clear [of h cl b] by simp

lemma same_layout_put:
  "i < length (tb_columns tb') \<Longrightarrow> clear_pending (fst ch) = clear_pending (tb_columns tb' ! i) \<Longrightarrow>
   same_layout tb (put_column tb' i ch) = same_layout tb tb'"
  using same_layout_put_column [of i tb' "fst ch" tb "snd ch"] by simp

lemma encode_layout:
  assumes "i < length (tb_columns tb)"
  shows "same_layout tb (fst (print_data_encode x tb i buf))"
proof -
  have "same_layout tb (put_column tb i (snd (set_pending_data h (tb_columns tb ! i) d sz)))"
    for h d sz
    using assms by (simp add: same_layout_put set_pending_data_clear)
  then show ?thesis
    by (simp add: print_data_encode_def Let_def split: prod.split option.split)
       (metis snd_conv)
qed

lemma wrap_layout:
  assumes "i < length (tb_columns tb)"
  shows "same_layout tb (fst (print_data_wrap x tb i lc))"
proof -
  let ?cl = "tb_columns tb ! i"
  obtain rc cl1 h1 where s: "set_pending_data (tb_heap tb) ?cl (lc_data lc) (size_of_bytes (lc_bytes lc))
      = (rc, cl1, h1)"
    by (metis prod_cases3)
  obtain bytes len d eno where t:
    "mbs_truncate x (case lc_data lc of None \<Rightarrow> [] | Some t \<Rightarrow> t) (lc_width lc) = (bytes, len, d, eno)"
    by (metis prod_cases4)
  define ch where "ch = (case bytes of None \<Rightarrow> (cl1, h1)
     | Some b \<Rightarrow> if b > 0 then snd (step_pending_data h1 cl1 b) else (cl1, h1))"
  have c1: "clear_pending cl1 = clear_pending ?cl"
    using s by (rule set_pending_data_clear_eq)
  have "clear_pending (fst ch) = clear_pending ?cl"
    using c1 step_pending_data_clear [of h1 cl1] by (simp add: ch_def split: option.split)
  then have "same_layout tb (put_column tb i ch)"
    using assms by (simp add: same_layout_put)
  then show ?thesis
    by (simp add: print_data_wrap_def Let_def s t ch_def)
qed

lemma emit_layout:
  "same_layout tb (fst (print_data_emit x tb i color buf lc))"
  by (simp add: print_data_emit_def Let_def split: option.splits)

lemma text_layout:
  assumes "i < length (tb_columns tb)"
  shows "same_layout tb (fst (print_data_text x tb i ln ce buf is_last))"
proof -
  obtain tb1 lc1 where e: "print_data_encode x tb i buf = (tb1, lc1)"
    by (metis prod.exhaust)
  have l1: "same_layout tb tb1"
    using encode_layout [OF assms, of x buf] e by simp
  obtain tb4 lc4 where w: "print_data_wrap x tb1 i
      (print_data_trunc x (tb_columns tb1 ! i) (print_data_width tb1 i is_last lc1)) = (tb4, lc4)"
    by (metis prod.exhaust)
  have "i < length (tb_columns tb1)"
    using assms same_layout_length [OF l1] by simp
  then have l4: "same_layout tb1 tb4"
    using wrap_layout [of i tb1 x] w by (metis fst_conv)
  have "same_layout tb4 (fst (print_data_emit x tb4 i c buf lc))" for c lc
    by (rule emit_layout)
  then show ?thesis
    using same_layout_trans [OF same_layout_trans [OF l1 l4]]
    by (simp add: print_data_text_def Let_def e w)
qed


lemma fputs_nothing [simp]: "fputs [] tb = tb"
  by (simp add: fputs_def)

lemma fputs_fputs: "fputs b (fputs a tb) = fputs (a @ b) tb"
  by (simp add: fputs_def)

lemma tb_out_fputs [simp]: "tb_out (fputs s tb) = tb_out tb @ s"
  by (simp add: fputs_def)

lemma fputs_fields [simp]:
  "tb_columns (fputs s tb) = tb_columns tb"
  "tb_colsep (fputs s tb) = tb_colsep tb"
  "tb_linesep (fputs s tb) = tb_linesep tb"
  "tb_heap (fputs s tb) = tb_heap tb"
  "termlines_used (fputs s tb) = termlines_used tb"
  "tb_format (fputs s tb) = tb_format tb"
  "cellpadding_symbol (fputs s tb) = cellpadding_symbol tb"
  "scols_table_is_minout (fputs s tb) = scols_table_is_minout tb"
  "scols_table_is_maxout (fputs s tb) = scols_table_is_maxout tb"
  "scols_table_is_noencoding (fputs s tb) = scols_table_is_noencoding tb"
  "is_last_column (fputs s tb) i = is_last_column tb i"
  "is_next_columns_empty (fputs s tb) i ln = is_next_columns_empty tb i ln"
  by (simp_all add: fputs_def cellpadding_symbol_def scols_table_is_minout_def
        scols_table_is_maxout_def scols_table_is_noencoding_def is_last_column_def
        is_next_columns_empty_def split: option.split)

lemma print_data_fill_eq:
  assumes l: "same_layout tb tbe" and i: "i < length (tb_columns tb)"
  shows "print_data_fill x tbe i ln (is_last_column tb i) buf lc =
     (if fill_skipped tb i ln then tbe
      else if lc_len lc > lc_width lc \<and> \<not> scols_column_is_trunc (tb_columns tb ! i)
      then print_newline_padding x tbe i ln (buffer_get_size buf)
      else fputs (concat (replicate (lc_width lc - lc_len lc) (cellpadding_symbol tb))
                  @ (if is_last_column tb i then [] else tb_colsep tb)) tbe)"
proof -
  have d: "((scols_table_is_minout tbe \<and> is_next_columns_empty tbe i ln)
            \<or> (\<not> scols_table_is_maxout tbe \<and> is_last_column tb i)) = fill_skipped tb i ln"
    using fill_decision [of tbe i ln] same_layout_fill_skipped [OF l, of i ln]
      same_layout_is_last_column [OF l, of i] by simp
  have t: "scols_column_is_trunc (tb_columns tbe ! i) = scols_column_is_trunc (tb_columns tb ! i)"
    using clear_pending_fields(5) [OF same_layout_column [OF l i]]
    by (simp add: scols_column_is_trunc_def)
  have c: "cellpadding_symbol tbe = cellpadding_symbol tb" "tb_colsep tbe = tb_colsep tb"
    using same_layout_config [OF l] by simp_all
  show ?thesis
  proof (cases "fill_skipped tb i ln")
    case True
    then show ?thesis
      using d by (auto simp: print_data_fill_def)
  next
    case False
    then have "\<not> (scols_table_is_minout tbe \<and> is_next_columns_empty tbe i ln)"
      and "\<not> (\<not> scols_table_is_maxout tbe \<and> is_last_column tb i)"
      using d by auto
    then show ?thesis
      using False t c
      by (auto simp: print_data_fill_def Let_def fill_padding_def fputs_fputs)
  qed
qed

lemma print_data_trunc_width [simp]: "lc_width (print_data_trunc x cl lc) = lc_width lc"
  by (simp add: print_data_trunc_def split: prod.split)

lemma print_data_wrap_width [simp]: "lc_width (snd (print_data_wrap x tb i lc)) = lc_width lc"
  by (simp add: print_data_wrap_def Let_def split: prod.split)

lemma print_data_failed_width [simp]: "lc_width (print_data_failed lc) = lc_width lc"
  by (simp add: print_data_failed_def)

lemma print_data_emit_width [simp]:
  "lc_width (snd (print_data_emit x tb i color buf lc)) = lc_width lc"
  by (simp add: print_data_emit_def Let_def split: option.split)

lemma print_data_encode_width [simp]:
  "lc_width (snd (print_data_encode x tb i buf)) = cl_width (tb_columns tb ! i)"
  by (simp add: print_data_encode_def Let_def split: prod.split option.split)

lemma print_data_text_width:
  assumes i: "i < length (tb_columns tb)" and ns: "\<not> fill_skipped tb i ln'"
  shows "lc_width (snd (print_data_text x tb i ln ce buf (is_last_column tb i)))
         = cl_width (tb_columns tb ! i)"
proof -
  obtain tb1 lc1 where e: "print_data_encode x tb i buf = (tb1, lc1)"
    by (metis prod.exhaust)
  have l1: "same_layout tb tb1"
    using encode_layout [OF i, of x buf] e by simp
  have w1: "lc_width lc1 = cl_width (tb_columns tb ! i)"
    using print_data_encode_width [of x tb i buf] e by simp
  have "\<not> (is_last_column tb i \<and> \<not> scols_table_is_maxout tb1)"
    using ns same_layout_config(2) [OF l1]
    by (auto simp: fill_skipped_def scols_table_is_maxout_def)
  then have w2: "lc_width (print_data_width tb1 i (is_last_column tb i) lc1) = lc_width lc1"
    by (auto simp: print_data_width_def)
  obtain tb4 lc4 where w: "print_data_wrap x tb1 i
      (print_data_trunc x (tb_columns tb1 ! i) (print_data_width tb1 i (is_last_column tb i) lc1))
      = (tb4, lc4)"
    by (metis prod.exhaust)
  have w4: "lc_width lc4 = lc_width lc1"
    using print_data_wrap_width [of x tb1 i
        "print_data_trunc x (tb_columns tb1 ! i) (print_data_width tb1 i (is_last_column tb i) lc1)"]
      w w2 by simp
  show ?thesis
    using w1 w4 by (simp add: print_data_text_def Let_def e w)
qed

lemma print_data_human_eq:
  assumes human: "tb_format tb = SCOLS_FMT_HUMAN" and i: "i < length (tb_columns tb)"
  shows "print_data x tb i ln ce buf
         = Some (0, case print_data_text x tb i ln ce buf (is_last_column tb i) of
                      (tbe, lc) \<Rightarrow>
                        if lc_len lc > lc_width lc
                           \<and> \<not> scols_column_is_trunc (tb_columns tb ! i) \<and> \<not> fill_skipped tb i ln
                        then print_newline_padding x tbe i ln (buffer_get_size buf)
                        else fputs (fill_bytes tb i ln (lc_len lc)) tbe)"
proof -
  obtain tbe lc where t: "print_data_text x tb i ln ce buf (is_last_column tb i) = (tbe, lc)"
    by (metis prod.exhaust)
  have l: "same_layout tb tbe"
    using text_layout [OF i, of x ln ce buf "is_last_column tb i"] t by simp
  have w: "\<not> fill_skipped tb i ln \<Longrightarrow> lc_width lc = cl_width (tb_columns tb ! i)"
    using print_data_text_width [OF i, of ln x ln ce buf] t by simp
  have "print_data x tb i ln ce buf
        = Some (0, print_data_fill x tbe i ln (is_last_column tb i) buf lc)"
    using human by (simp add: print_data_def print_data_human_def Let_def t scols_table_is_json_def)
  then show ?thesis
    using w by (simp add: print_data_fill_eq [OF l i] t fill_bytes_def)
qed



lemma put_column_fields [simp]:
  "tb_out (put_column tb i ch) = tb_out tb"
  "tb_colsep (put_column tb i ch) = tb_colsep tb"
  "termlines_used (put_column tb i ch) = termlines_used tb"
  "tb_format (put_column tb i ch) = tb_format tb"
  "tb_columns (put_column tb i ch) = (tb_columns tb)[i := fst ch]"
  "tb_heap (put_column tb i ch) = snd ch"
  by (simp_all add: put_column_def)




lemma encode_out [simp]: "tb_out (fst (print_data_encode x tb i buf)) = tb_out tb"
  by (simp add: print_data_encode_def Let_def split: prod.split option.split)

lemma wrap_out [simp]: "tb_out (fst (print_data_wrap x tb i lc)) = tb_out tb"
  by (simp add: print_data_wrap_def Let_def split: prod.split option.split)

lemma encode_bytes: "lc_bytes (snd (print_data_encode x tb i buf)) \<noteq> None"
  by (simp add: print_data_encode_def Let_def split: prod.split option.split)

lemma encode_plain:
  assumes "\<not> scols_column_is_customwrap (tb_columns tb ! i)"
    and "buffer_get_safe_data x (scols_table_is_noencoding tb) (buffer_get_data buf)
           (cl_safechars (tb_columns tb ! i)) = (sd, len)"
  shows "print_data_encode x tb i buf
         = (tb, \<lparr>lc_data = Some (case sd of None \<Rightarrow> [] | Some t \<Rightarrow> t), lc_len = len,
                 lc_bytes = Some (length (case sd of None \<Rightarrow> [] | Some t \<Rightarrow> t)),
                 lc_width = cl_width (tb_columns tb ! i)\<rparr>)"
  using assms by (simp add: print_data_encode_def Let_def)

lemma emit_plain_out:
  assumes "\<not> scols_column_is_right (tb_columns tb ! i)" and "lc_data lc = Some d"
    and "lc_bytes lc = Some n"
  shows "tb_out (fst (print_data_emit x tb i color buf lc))
         = tb_out tb
           @ (if d = [] then []
              else (case color of
                      None \<Rightarrow> d
                    | Some c \<Rightarrow>
                        (if scols_column_is_tree (tb_columns tb ! i)
                            \<and> buffer_get_safe_art_size x (buffer_get_data buf) (art_idx buf) \<noteq> 0
                            \<and> buffer_get_safe_art_size x (buffer_get_data buf) (art_idx buf) < n
                         then take (buffer_get_safe_art_size x (buffer_get_data buf) (art_idx buf)) d
                              @ c
                              @ drop (buffer_get_safe_art_size x (buffer_get_data buf) (art_idx buf)) d
                              @ UL_COLOR_RESET x
                         else c @ d @ UL_COLOR_RESET x)))"
  using assms
  by (auto simp: print_data_emit_def Let_def size_of_bytes_def split: option.split)


lemma print_data_emit_locals:
  "\<not> scols_column_is_right (tb_columns tb ! i) \<Longrightarrow> snd (print_data_emit x tb i color buf lc) = lc"
  by (simp add: print_data_emit_def Let_def split: option.split)

lemma print_data_human_fill:
  assumes "tb_format tb = SCOLS_FMT_HUMAN"
  shows "print_data x tb i ln ce buf
         = Some (0, print_data_fill x
                      (fst (print_data_text x tb i ln ce buf (is_last_column tb i))) i ln
                      (is_last_column tb i) buf
                      (snd (print_data_text x tb i ln ce buf (is_last_column tb i))))"
  using assms
  by (simp add: print_data_def print_data_human_def Let_def scols_table_is_json_def
        split: prod.split)

lemma print_data_shrunk:
  assumes human: "tb_format tb = SCOLS_FMT_HUMAN" and i: "i < length (tb_columns tb)"
    and last: "is_last_column tb i" and nomax: "\<not> scols_table_is_maxout tb"
    and noright: "\<not> scols_column_is_right (tb_columns tb ! i)"
    and enc: "print_data_encode x tb i buf = (tb1, lc1)"
    and short: "lc_len lc1 < cl_width (tb_columns tb ! i)"
  shows "lc_width (print_data_width tb1 i (is_last_column tb i) lc1) = lc_len lc1
         \<and> print_data_text x tb i ln ce buf (is_last_column tb i)
             = print_data_emit x tb1 i (get_cell_color tb (tb_columns tb ! i) ln ce) buf
                 (lc1\<lparr>lc_width := lc_len lc1\<rparr>)
         \<and> print_data x tb i ln ce buf
             = Some (0, fst (print_data_emit x tb1 i (get_cell_color tb (tb_columns tb ! i) ln ce) buf
                               (lc1\<lparr>lc_width := lc_len lc1\<rparr>)))"
proof -
  let ?lc2 = "lc1\<lparr>lc_width := lc_len lc1\<rparr>"
  have l1: "same_layout tb tb1"
    using encode_layout [OF i, of x buf] enc by simp
  have w1: "lc_width lc1 = cl_width (tb_columns tb ! i)"
    using print_data_encode_width [of x tb i buf] enc by simp
  have nm1: "\<not> scols_table_is_maxout tb1"
    using nomax same_layout_config(2) [OF l1] by (simp add: scols_table_is_maxout_def)
  have nr1: "\<not> scols_column_is_right (tb_columns tb1 ! i)"
    using noright clear_pending_fields(7) [OF same_layout_column [OF l1 i]]
    by (simp add: scols_column_is_right_def)
  have s2: "print_data_width tb1 i (is_last_column tb i) lc1 = ?lc2"
    using last short w1 nm1 nr1 by (simp add: print_data_width_def)
  have s3: "print_data_trunc x cl ?lc2 = ?lc2" for cl
    by (simp add: print_data_trunc_def)
  have s4: "print_data_wrap x tb1 i ?lc2 = (tb1, ?lc2)"
    by (simp add: print_data_wrap_def)
  have s5: "print_data_failed ?lc2 = ?lc2"
    using encode_bytes [of x tb i buf] enc by (auto simp: print_data_failed_def)
  have t: "print_data_text x tb i ln ce buf (is_last_column tb i)
           = print_data_emit x tb1 i (get_cell_color tb (tb_columns tb ! i) ln ce) buf ?lc2"
    by (simp add: print_data_text_def Let_def enc s2 s3 s4 s5)
  have sk: "fill_skipped tb i ln"
    using last nomax by (simp add: fill_skipped_def)
  have "print_data x tb i ln ce buf
        = Some (0, fst (print_data_emit x tb1 i (get_cell_color tb (tb_columns tb ! i) ln ce) buf ?lc2))"
    using print_data_human_eq [OF human i, of x ln ce buf] sk
    by (simp add: t fill_bytes_def split: prod.split)
  then show ?thesis
    using s2 t by simp
qed

lemma print_data_truncation_failed:
  assumes human: "tb_format tb = SCOLS_FMT_HUMAN" and i: "i < length (tb_columns tb)"
    and nocustom: "\<not> scols_column_is_customwrap (tb_columns tb ! i)"
    and enc: "buffer_get_safe_data x (scols_table_is_noencoding tb) (buffer_get_data buf)
                (cl_safechars (tb_columns tb ! i)) = (Some d, len)"
    and long: "cl_width (tb_columns tb ! i) < len"
    and flags: "scols_column_is_trunc (tb_columns tb ! i) \<or> scols_column_is_wrap (tb_columns tb ! i)"
    and fail: "mbs_truncate x d (cl_width (tb_columns tb ! i)) = (None, len', d, eno)"
  shows "\<exists>tb'. print_data x tb i ln ce buf = Some (0, tb')
               \<and> tb_out tb' = tb_out tb @ fill_bytes tb i ln 0"
proof -
  let ?cl = "tb_columns tb ! i"
  let ?w = "cl_width ?cl"
  define lc1 where "lc1 = \<lparr>lc_data = Some d, lc_len = len, lc_bytes = Some (length d), lc_width = ?w\<rparr>"
  have e: "print_data_encode x tb i buf = (tb, lc1)"
    using encode_plain [OF nocustom enc] by (simp add: lc1_def)
  have s2: "print_data_width tb i b lc1 = lc1" for b
    using long by (simp add: print_data_width_def lc1_def)
  define lc3 where "lc3 = print_data_trunc x ?cl lc1"
  have d3: "lc_data lc3 = Some d" and w3: "lc_width lc3 = ?w"
    using fail by (simp_all add: lc3_def print_data_trunc_def lc1_def)
  have t3: "scols_column_is_trunc ?cl \<Longrightarrow> lc_bytes lc3 = None"
    using long fail by (simp add: lc3_def print_data_trunc_def lc1_def)
  have n3: "\<not> scols_column_is_trunc ?cl \<Longrightarrow> lc3 = lc1"
    by (simp add: lc3_def print_data_trunc_def)
  obtain tb4 lc4 where w: "print_data_wrap x tb i lc3 = (tb4, lc4)"
    by (metis prod.exhaust)
  have b4: "lc_bytes lc4 = None"
  proof (cases "lc_len lc3 > lc_width lc3 \<and> scols_column_is_wrap ?cl")
    case True
    then show ?thesis
      using w nocustom fail d3 w3
      by (auto simp: print_data_wrap_def Let_def split: prod.splits)
  next
    case False
    then have "print_data_wrap x tb i lc3 = (tb, lc3)"
      by (auto simp: print_data_wrap_def Let_def)
    moreover have "scols_column_is_trunc ?cl"
    proof (rule ccontr)
      assume nt: "\<not> scols_column_is_trunc ?cl"
      then have "lc_len lc3 = len"
        using n3 by (simp add: lc1_def)
      moreover have "scols_column_is_wrap ?cl"
        using nt flags by simp
      ultimately show False
        using False long w3 by simp
    qed
    ultimately show ?thesis
      using w t3 by simp
  qed
  have w4: "lc_width lc4 = ?w"
    using print_data_wrap_width [of x tb i lc3] w w3 by simp
  define lc5 where "lc5 = print_data_failed lc4"
  have f5: "lc_data lc5 = None" "lc_len lc5 = 0" "lc_width lc5 = ?w"
    using b4 w4 by (simp_all add: lc5_def print_data_failed_def)
  have em: "print_data_emit x tb4 i c buf lc5 = (tb4, lc5)" for c
    using f5 by (simp add: print_data_emit_def)
  have t: "print_data_text x tb i ln ce buf (is_last_column tb i) = (tb4, lc5)"
    by (simp add: print_data_text_def Let_def e s2 w em lc3_def [symmetric] lc5_def [symmetric])
  have o4: "tb_out tb4 = tb_out tb"
    using wrap_out [of x tb i lc3] w by simp
  have "print_data x tb i ln ce buf = Some (0, fputs (fill_bytes tb i ln 0) tb4)"
    using print_data_human_eq [OF human i, of x ln ce buf] f5 by (simp add: t)
  then show ?thesis
    using o4 by simp
qed

lemma print_pending_data_failed:
  assumes pend: "pending_data (tb_columns tb ! i) \<noteq> None"
    and width: "cl_width (tb_columns tb ! i) \<noteq> 0"
    and heap: "alloc (tb_heap tb) = (True, h)"
    and fail: "print_pending_data_chunk x tb (tb_columns tb ! i) = (None, len, d, eno)"
  shows "print_pending_data x tb i ln ce = (- eno, tb\<lparr>tb_heap := h\<rparr>)"
  by (simp add: print_pending_data_def Let_def pend width heap fail)


subsection \<open>The short last column\<close>

text \<open>C7: in human format, for a cell in the last visible column, when max-out is off,
  the column is not right-aligned and the measured width of the cell text is less than
  the column's width, the effective width is shrunk to the measured width before anything
  else is decided: the truncation and the wrapping step get the shrunk width and do not
  apply, the locals that reach the fill decision hold the measured width as their width,
  and the cell is written as its text alone (with its colour sequences, if any) without
  any padding behind it; \<^verbatim>\<open>print_data\<close> returns 0.\<close>

theorem C7_last_column_shrink:
  assumes human: "tb_format tb = SCOLS_FMT_HUMAN" and i: "i < length (tb_columns tb)"
    and last: "is_last_column tb i" and nomax: "\<not> scols_table_is_maxout tb"
    and noright: "\<not> scols_column_is_right (tb_columns tb ! i)"
    and short: "lc_len (snd (print_data_encode x tb i buf)) < cl_width (tb_columns tb ! i)"
  shows "print_data_width (fst (print_data_encode x tb i buf)) i (is_last_column tb i)
           (snd (print_data_encode x tb i buf))
           = (snd (print_data_encode x tb i buf))
               \<lparr>lc_width := lc_len (snd (print_data_encode x tb i buf))\<rparr>
         \<and> print_data_text x tb i ln ce buf (is_last_column tb i)
             = print_data_emit x (fst (print_data_encode x tb i buf)) i
                 (get_cell_color tb (tb_columns tb ! i) ln ce) buf
                 ((snd (print_data_encode x tb i buf))
                    \<lparr>lc_width := lc_len (snd (print_data_encode x tb i buf))\<rparr>)
         \<and> snd (print_data_text x tb i ln ce buf (is_last_column tb i))
             = (snd (print_data_encode x tb i buf))
                 \<lparr>lc_width := lc_len (snd (print_data_encode x tb i buf))\<rparr>
         \<and> (\<exists>tb' d n.
               print_data x tb i ln ce buf = Some (0, tb')
               \<and> tb' = print_data_fill x
                          (fst (print_data_text x tb i ln ce buf (is_last_column tb i))) i ln
                          (is_last_column tb i) buf
                          (snd (print_data_text x tb i ln ce buf (is_last_column tb i)))
               \<and> tb' = fst (print_data_text x tb i ln ce buf (is_last_column tb i))
               \<and> lc_data (snd (print_data_encode x tb i buf)) = Some d
               \<and> lc_bytes (snd (print_data_encode x tb i buf)) = Some n
               \<and> tb_out tb'
                   = tb_out tb
                     @ (if d = [] then []
                        else (case get_cell_color tb (tb_columns tb ! i) ln ce of
                                None \<Rightarrow> d
                              | Some c \<Rightarrow>
                                  (if scols_column_is_tree (tb_columns tb ! i)
                                      \<and> buffer_get_safe_art_size x (buffer_get_data buf) (art_idx buf) \<noteq> 0
                                      \<and> buffer_get_safe_art_size x (buffer_get_data buf) (art_idx buf) < n
                                   then take (buffer_get_safe_art_size x (buffer_get_data buf) (art_idx buf)) d
                                        @ c
                                        @ drop (buffer_get_safe_art_size x (buffer_get_data buf) (art_idx buf)) d
                                        @ UL_COLOR_RESET x
                                   else c @ d @ UL_COLOR_RESET x))))"
proof -
  obtain tb1 lc1 where enc: "print_data_encode x tb i buf = (tb1, lc1)"
    by (metis prod.exhaust)
  let ?color = "get_cell_color tb (tb_columns tb ! i) ln ce"
  let ?lc2 = "lc1\<lparr>lc_width := lc_len lc1\<rparr>"
  let ?T = "print_data_text x tb i ln ce buf (is_last_column tb i)"
  have short1: "lc_len lc1 < cl_width (tb_columns tb ! i)"
    using short enc by simp
  note sh = print_data_shrunk [OF human i last nomax noright enc short1, of ln ce]
  have l1: "same_layout tb tb1"
    using encode_layout [OF i, of x buf] enc by simp
  have o1: "tb_out tb1 = tb_out tb"
    using encode_out [of x tb i buf] enc by simp
  have nr1: "\<not> scols_column_is_right (tb_columns tb1 ! i)"
    using noright clear_pending_fields(7) [OF same_layout_column [OF l1 i]]
    by (simp add: scols_column_is_right_def)
  have tr1: "scols_column_is_tree (tb_columns tb1 ! i) = scols_column_is_tree (tb_columns tb ! i)"
    using clear_pending_fields(4) [OF same_layout_column [OF l1 i]]
    by (simp add: scols_column_is_tree_def)
  obtain d where d: "lc_data lc1 = Some d"
    using enc by (auto simp: print_data_encode_def Let_def split: prod.splits option.splits)
  obtain n where n: "lc_bytes lc1 = Some n"
    using encode_bytes [of x tb i buf] enc by auto
  have w1: "lc_width lc1 = cl_width (tb_columns tb ! i)"
    using print_data_encode_width [of x tb i buf] enc by simp
  have nm1: "\<not> scols_table_is_maxout tb1"
    using nomax same_layout_config(2) [OF l1] by (simp add: scols_table_is_maxout_def)
  have w: "print_data_width tb1 i (is_last_column tb i) lc1 = ?lc2"
    using last short1 w1 nm1 nr1 by (simp add: print_data_width_def)
  have t: "?T = print_data_emit x tb1 i ?color buf ?lc2"
    using sh by simp
  have s: "snd ?T = ?lc2"
    using nr1 by (simp add: t print_data_emit_locals)
  let ?tb' = "fst ?T"
  have out: "tb_out ?tb'
        = tb_out tb
          @ (if d = [] then []
             else (case ?color of
                     None \<Rightarrow> d
                   | Some c \<Rightarrow>
                       (if scols_column_is_tree (tb_columns tb ! i)
                           \<and> buffer_get_safe_art_size x (buffer_get_data buf) (art_idx buf) \<noteq> 0
                           \<and> buffer_get_safe_art_size x (buffer_get_data buf) (art_idx buf) < n
                        then take (buffer_get_safe_art_size x (buffer_get_data buf) (art_idx buf)) d
                             @ c
                             @ drop (buffer_get_safe_art_size x (buffer_get_data buf) (art_idx buf)) d
                             @ UL_COLOR_RESET x
                        else c @ d @ UL_COLOR_RESET x)))"
    unfolding t
    using emit_plain_out [OF nr1, of ?lc2 d n x ?color buf, unfolded tr1 o1] d n by simp
  have p: "print_data x tb i ln ce buf = Some (0, ?tb')"
    using sh by (simp add: t)
  have f: "?tb' = print_data_fill x ?tb' i ln (is_last_column tb i) buf (snd ?T)"
    using p print_data_human_fill [OF human, of x i ln ce buf] by simp
  show ?thesis
    unfolding enc fst_conv snd_conv
    apply (rule conjI [OF w])
    apply (rule conjI [OF t])
    apply (rule conjI [OF s])
    apply (rule exI [of _ "?tb'"], rule exI [of _ d], rule exI [of _ n])
    apply (intro conjI p f refl d n out)
    done
qed

theorem C7_last_column_shrink_witness:
  "tb_format short_table = SCOLS_FMT_HUMAN \<and> 0 < length (tb_columns short_table)
   \<and> is_last_column short_table 0 \<and> \<not> scols_table_is_maxout short_table
   \<and> \<not> scols_column_is_right (tb_columns short_table ! 0)
   \<and> lc_len (snd (print_data_encode ascii_services short_table 0 short_buffer)) = 2
   \<and> cl_width (tb_columns short_table ! 0) = 5
   \<and> lc_width (snd (print_data_text ascii_services short_table 0 (Some short_line)
                      (scols_line_get_cell short_line 0) short_buffer
                      (is_last_column short_table 0))) = 2
   \<and> map_option (\<lambda>r. (fst r, tb_out (snd r)))
        (print_data ascii_services short_table 0 (Some short_line)
           (scols_line_get_cell short_line 0) short_buffer) = Some (0, ''ab'')"
proof -
  have h1: "tb_format short_table = SCOLS_FMT_HUMAN" by code_simp
  have h2: "0 < length (tb_columns short_table)" by code_simp
  have h3: "is_last_column short_table 0" by code_simp
  have h4: "\<not> scols_table_is_maxout short_table" by code_simp
  have h5: "\<not> scols_column_is_right (tb_columns short_table ! 0)" by code_simp
  have h6: "lc_len (snd (print_data_encode ascii_services short_table 0 short_buffer)) = 2"
    by code_simp
  have h7: "cl_width (tb_columns short_table ! 0) = 5" by code_simp
  have h8: "lc_len (snd (print_data_encode ascii_services short_table 0 short_buffer))
            < cl_width (tb_columns short_table ! 0)"
    using h6 h7 by simp
  have e1: "tb_out short_table = []" by code_simp
  have e2: "lc_data (snd (print_data_encode ascii_services short_table 0 short_buffer)) = Some ''ab''"
    by code_simp
  have e3: "get_cell_color short_table (tb_columns short_table ! 0) (Some short_line)
              (scols_line_get_cell short_line 0) = None"
    by code_simp
  note c = C7_last_column_shrink [OF h1 h2 h3 h4 h5 h8, of "Some short_line"
      "scols_line_get_cell short_line 0"]
  have w: "lc_width (snd (print_data_text ascii_services short_table 0 (Some short_line)
                      (scols_line_get_cell short_line 0) short_buffer
                      (is_last_column short_table 0))) = 2"
    using c h6 by simp
  have p: "map_option (\<lambda>r. (fst r, tb_out (snd r)))
        (print_data ascii_services short_table 0 (Some short_line)
           (scols_line_get_cell short_line 0) short_buffer) = Some (0, ''ab'')"
    using c by (auto simp: e1 e2 e3)
  show ?thesis
    using h1 h2 h3 h4 h5 h6 h7 w p by simp
qed

subsection \<open>The fill policy\<close>




subsection \<open>A failed truncation\<close>

text \<open>C9 fails on the pending-data path, by a defect of the code. On the first line of
  a row a failed truncation empties the cell (print.c:581--584): \<^verbatim>\<open>print_data\<close> writes
  what \<^verbatim>\<open>print_empty_cell\<close> writes and returns 0. On an extra line the same failure
  makes \<^verbatim>\<open>print_pending_data\<close> leave through its error label: it returns \<^verbatim>\<open>-errno\<close> and
  writes nothing, not even the fill of an empty cell, and the loop over the columns of
  the extra line stops there. On \<open>bad_table\<close> the first cell holds a malformed sequence
  behind its first two bytes and the column wraps: the regular line is printed with an
  empty first cell and leaves \<open>bad_pending\<close>; on the extra line \<^verbatim>\<open>print_pending_data\<close>
  returns \<^verbatim>\<open>-EILSEQ\<close> where an empty cell would have written three bytes of fill, the
  rest \<open>z\<close> of the second column is never written and stays pending, and \<^verbatim>\<open>print_line\<close>
  returns 0 after the bare line break. With a first column that truncates instead of
  wrapping, the same line is printed as the specification says: an empty first cell on
  both lines, and the rest of the second column on the second.\<close>

theorem C9_pending_truncation_error:
  "map_option (\<lambda>r. (fst r, tb_out (snd r)))
     (print_data ascii_services bad_table 0 (Some bad_line) (scols_line_get_cell bad_line 0)
        bad_buffer) = Some (0, ''   '')
   \<and> tb_out (print_empty_cell ascii_services bad_table 0 (Some bad_line) 20) = ''   ''
   \<and> map_option (\<lambda>st. (ls_rc st, tb_out (ls_tb st), map pending_text (tb_columns (ls_tb st))))
        (print_line_regular ascii_services bad_line [0, 1]
           \<lparr>ls_rc = 0, ls_pending = False, ls_tb = bad_table, ls_buf = scratch_buffer 20\<rparr>)
       = Some (0, ''   wxy'', [[CHR ''a'', CHR ''b'', CHR 0xFF, CHR ''c''], ''z''])
   \<and> (tb_out bad_pending, map pending_text (tb_columns bad_pending))
       = (''   wxy'', [[CHR ''a'', CHR ''b'', CHR 0xFF, CHR ''c''], ''z''])
   \<and> (\<lambda>r. (fst r, tb_out (snd r)))
        (print_pending_data ascii_services bad_pending 0 (Some bad_line)
           (scols_line_get_cell bad_line 0)) = (- EILSEQ, ''   wxy'')
   \<and> - EILSEQ \<noteq> 0
   \<and> tb_out (print_empty_cell ascii_services bad_pending 0 (Some bad_line) 20)
       = ''   wxy'' @ ''   ''
   \<and> map_option (\<lambda>r. (fst r, tb_out (fst (snd r)), map pending_text (tb_columns (fst (snd r)))))
        (print_line ascii_services 5 bad_table bad_line (scratch_buffer 20))
       = Some (0, ''   wxy'' @ [CHR 0x0A], [[CHR ''a'', CHR ''b'', CHR 0xFF, CHR ''c''], ''z''])
   \<and> map_option (\<lambda>r. (fst r, tb_out (fst (snd r)), map pending_text (tb_columns (fst (snd r)))))
        (print_line ascii_services 5
           (bad_table\<lparr>tb_columns := [(plain_column 0 2)\<lparr>fl_trunc := True\<rparr>,
                                       (plain_column 1 3)\<lparr>fl_wrap := True\<rparr>]\<rparr>)
           bad_line (scratch_buffer 20))
       = Some (0, ''   wxy'' @ [CHR 0x0A] @ ''   z'', [[], []])"
  by code_simp

subsection \<open>The cells of a row\<close>

lemma emit_columns [simp]:
  "tb_columns (fst (print_data_emit x tb i color buf lc)) = tb_columns tb"
  "tb_heap (fst (print_data_emit x tb i color buf lc)) = tb_heap tb"
  by (simp_all add: print_data_emit_def Let_def fill_padding_def split: option.split)









subsection \<open>Continuation lines\<close>






lemma same_row_refl [simp]: "same_row T T"
  by (simp add: same_row_def)







lemma fill_skipped_termlines [simp]:
  "fill_skipped (tb\<lparr>termlines_used := v\<rparr>) j ln = fill_skipped tb j ln"
  by (simp add: fill_skipped_def is_last_column_def no_tree_column_after_def
        remaining_columns_empty_def scols_table_is_minout_def scols_table_is_maxout_def
        split: option.split)

lemma fill_bytes_termlines [simp]:
  "fill_bytes (tb\<lparr>termlines_used := v\<rparr>) j ln len = fill_bytes tb j ln len"
  by (simp add: fill_bytes_def is_last_column_def cellpadding_symbol_def)















lemma append_data_bufsz [simp]: "bufsz (snd (buffer_append_data b s)) = bufsz b"
  by (simp add: buffer_append_data_def)

lemma append_ntimes_bufsz [simp]: "bufsz (snd (buffer_append_ntimes b n s)) = bufsz b"
proof (induction n arbitrary: b)
  case 0
  then show ?case by simp
next
  case (Suc n)
  obtain rc b' where a: "buffer_append_data b s = (rc, b')"
    by (metis prod.exhaust)
  have "bufsz b' = bufsz b"
    using append_data_bufsz [of b s] a by simp
  then show ?case
    using Suc [of b'] a by simp
qed






lemma text_bytes_termlines [simp]:
  "text_bytes x (tb\<lparr>termlines_used := v\<rparr>) cl c a d = text_bytes x tb cl c a d"
  by (simp add: text_bytes_def cellpadding_symbol_def)
















subsection \<open>Continuation lines\<close>




end
